theory Spec2Isabelle
  imports Complex_Main "HOL-Library.Multiset" "HOL-Library.Monad_Syntax"
begin

unbundle bit_operations_syntax

section \<open>Rate limiter (pages/api/jobs.ts)\<close>

text \<open>
  The limiter keeps, per client key, the start of the current window and the number of
  requests counted in it. \<open>Date.now()\<close> is an integer number of milliseconds and is an
  argument of the model; the module-level \<open>ipStore\<close> is passed in and returned.
\<close>

definition rateLimitWindowMs :: int where
  "rateLimitWindowMs = 60000"

definition rateLimitMax :: int where
  "rateLimitMax = 60"

record rate_rec =
  ts :: int
  count :: int

record rl_result =
  ok :: bool
  retryAfterMs :: "int option"

type_synonym ip_store = "string \<rightharpoonup> rate_rec"

definition checkRateLimit :: "int \<Rightarrow> string \<Rightarrow> ip_store \<Rightarrow> rl_result \<times> ip_store" where
  "checkRateLimit now ip ipStore =
     (case ipStore ip of
        None \<Rightarrow>
          (\<lparr>ok = True, retryAfterMs = None\<rparr>, ipStore(ip \<mapsto> \<lparr>ts = now, count = 1\<rparr>))
      | Some rec \<Rightarrow>
          if now - ts rec > rateLimitWindowMs then
            (\<lparr>ok = True, retryAfterMs = None\<rparr>, ipStore(ip \<mapsto> \<lparr>ts = now, count = 1\<rparr>))
          else if count rec \<ge> rateLimitMax then
            (\<lparr>ok = False, retryAfterMs = Some (rateLimitWindowMs - (now - ts rec))\<rparr>, ipStore)
          else
            (\<lparr>ok = True, retryAfterMs = None\<rparr>, ipStore(ip \<mapsto> rec\<lparr>count := count rec + 1\<rparr>)))"

text \<open>A sequence of admission calls for one key, at the given clock readings.\<close>

fun admissions :: "string \<Rightarrow> int list \<Rightarrow> ip_store \<Rightarrow> rl_result list \<times> ip_store" where
  "admissions ip [] st = ([], st)"
| "admissions ip (t # nows) st =
     (case checkRateLimit t ip st of
        (r, st') \<Rightarrow> (case admissions ip nows st' of (rs, st'') \<Rightarrow> (r # rs, st'')))"

section \<open>JavaScript values\<close>

text \<open>
  The raw provider records are untyped (\<open>any\<close>), so the normalizers are modelled over a
  datatype of JavaScript values as \<open>JSON.parse\<close> produces them, plus \<open>undefined\<close> and
  \<open>NaN\<close>. Numbers are real numbers (or \<open>NaN\<close>): the rounding of IEEE doubles and the two
  infinities are not modelled. Strings are lists of characters; the model is exact on
  ASCII text. An object is an association list in which the first binding of a key counts.
\<close>

datatype jsnum = NaN | Num real

datatype jsval =
    Undefined
  | Null
  | Bool bool
  | Number jsnum
  | Str string
  | Arr "jsval list"
  | Obj "(string \<times> jsval) list"

text \<open>
  The conversions between numbers and strings are language built-ins whose exact results
  depend on the double format and on the date grammar; they are parameters of the model.
\<close>

record builtins =
  numberToString :: "real \<Rightarrow> string"
  stringToNumber :: "string \<Rightarrow> jsnum"
  dateParse :: "string \<Rightarrow> jsnum"

fun truthy :: "jsval \<Rightarrow> bool" where
  "truthy Undefined = False"
| "truthy Null = False"
| "truthy (Bool b) = b"
| "truthy (Number NaN) = False"
| "truthy (Number (Num x)) = (x \<noteq> 0)"
| "truthy (Str s) = (s \<noteq> [])"
| "truthy (Arr xs) = True"
| "truthy (Obj kvs) = True"

fun nullish :: "jsval \<Rightarrow> bool" where
  "nullish Undefined = True"
| "nullish Null = True"
| "nullish v = False"

fun isNumber :: "jsval \<Rightarrow> bool" where
  "isNumber (Number n) = True"
| "isNumber v = False"

fun isArray :: "jsval \<Rightarrow> bool" where
  "isArray (Arr xs) = True"
| "isArray v = False"

text \<open>\<open>a || b\<close>, \<open>a ?? b\<close> where evaluating \<open>b\<close> cannot throw.\<close>

definition js_or :: "jsval \<Rightarrow> jsval \<Rightarrow> jsval" where
  "js_or a b = (if truthy a then a else b)"

definition js_coalesce :: "jsval \<Rightarrow> jsval \<Rightarrow> jsval" where
  "js_coalesce a b = (if nullish a then b else a)"

text \<open>
  \<open>v.k\<close> on a value that is neither \<open>null\<close> nor \<open>undefined\<close>. None of the property names
  the program reads is defined on the prototypes of strings, numbers, booleans or arrays,
  so only objects answer with something else than \<open>undefined\<close>. On \<open>null\<close> and
  \<open>undefined\<close> the access throws a TypeError, unless it is written \<open>v?.k\<close> (\<open>optProp\<close>),
  which then gives \<open>undefined\<close>.
\<close>

fun lookupProp :: "jsval \<Rightarrow> string \<Rightarrow> jsval" where
  "lookupProp (Obj kvs) k = (case map_of kvs k of None \<Rightarrow> Undefined | Some v \<Rightarrow> v)"
| "lookupProp v k = Undefined"

definition optProp :: "jsval \<Rightarrow> string \<Rightarrow> jsval" where
  "optProp v k = (if nullish v then Undefined else lookupProp v k)"

text \<open>The decimal digits of a natural number.\<close>

function natString :: "nat \<Rightarrow> string" where
  "natString n =
     (if n < 10 then [''0123456789'' ! n]
      else natString (n div 10) @ [''0123456789'' ! (n mod 10)])"
  by pat_completeness auto
termination
  by (relation "measure id") auto

text \<open>\<open>v[i]\<close> on a value that is neither \<open>null\<close> nor \<open>undefined\<close>.\<close>

fun elemAt :: "jsval \<Rightarrow> nat \<Rightarrow> jsval" where
  "elemAt (Arr xs) i = (if i < length xs then xs ! i else Undefined)"
| "elemAt (Str s) i = (if i < length s then Str [s ! i] else Undefined)"
| "elemAt (Obj kvs) i = lookupProp (Obj kvs) (natString i)"
| "elemAt v i = Undefined"

fun joinWith :: "string \<Rightarrow> string list \<Rightarrow> string" where
  "joinWith sep [] = []"
| "joinWith sep [x] = x"
| "joinWith sep (x # y # ys) = x @ sep @ joinWith sep (y # ys)"

text \<open>
  \<open>String(v)\<close>, a template literal and \<open>Number(v)\<close> can throw: an object is converted by
  its \<open>toString\<close> method, and an object that has a property \<open>toString\<close> of its own (coming
  from JSON, a value that cannot be called) hides the inherited method, so that the
  conversion ends in a TypeError. \<open>None\<close> is that TypeError. An array joins the strings
  of its elements with commas, \<open>null\<close> and \<open>undefined\<close> elements giving the empty string,
  and throws when the conversion of an element throws.
\<close>

fun toString :: "builtins \<Rightarrow> jsval \<Rightarrow> string option" where
  "toString B Undefined = Some ''undefined''"
| "toString B Null = Some ''null''"
| "toString B (Bool b) = Some (if b then ''true'' else ''false'')"
| "toString B (Number NaN) = Some ''NaN''"
| "toString B (Number (Num x)) = Some (numberToString B x)"
| "toString B (Str s) = Some s"
| "toString B (Arr xs) =
     map_option (joinWith '','')
       (those (map (\<lambda>x. if nullish x then Some [] else toString B x) xs))"
| "toString B (Obj kvs) =
     (if map_of kvs ''toString'' = None then Some ''[object Object]'' else None)"

text \<open>\<open>Number(v)\<close>; arrays and objects are first converted to their strings.\<close>

fun toNumber :: "builtins \<Rightarrow> jsval \<Rightarrow> jsnum option" where
  "toNumber B Undefined = Some NaN"
| "toNumber B Null = Some (Num 0)"
| "toNumber B (Bool b) = Some (Num (if b then 1 else 0))"
| "toNumber B (Number n) = Some n"
| "toNumber B (Str s) = Some (stringToNumber B s)"
| "toNumber B (Arr xs) = map_option (stringToNumber B) (toString B (Arr xs))"
| "toNumber B (Obj kvs) = map_option (stringToNumber B) (toString B (Obj kvs))"

subsection \<open>String methods\<close>

definition lowerChar :: "char \<Rightarrow> char" where
  "lowerChar c = (let n = (of_char c :: nat) in if 65 \<le> n \<and> n \<le> 90 then char_of (n + 32) else c)"

definition toLowerCase :: "string \<Rightarrow> string" where
  "toLowerCase s = map lowerChar s"

fun startsWith :: "string \<Rightarrow> string \<Rightarrow> bool" where
  "startsWith s [] = True"
| "startsWith [] (p # ps) = False"
| "startsWith (c # cs) (p # ps) = (c = p \<and> startsWith cs ps)"

fun str_includes :: "string \<Rightarrow> string \<Rightarrow> bool" where
  "str_includes [] sub = (sub = [])"
| "str_includes (c # cs) sub = (startsWith (c # cs) sub \<or> str_includes cs sub)"

definition isSpaceChar :: "char \<Rightarrow> bool" where
  "isSpaceChar c = (let n = (of_char c :: nat) in (9 \<le> n \<and> n \<le> 13) \<or> n = 32)"

definition trim :: "string \<Rightarrow> string" where
  "trim s = rev (dropWhile isSpaceChar (rev (dropWhile isSpaceChar s)))"

text \<open>\<open>s.replace(/<[^>]+>/g, '')\<close>: a match starts at a \<open><\<close> that is followed by one or more
  characters other than \<open>>\<close> and then a \<open>>\<close>; matches are removed from left to right.\<close>

function stripTags :: "string \<Rightarrow> string" where
  "stripTags [] = []"
| "stripTags (c # cs) =
     (if c = CHR ''<'' \<and> takeWhile (\<lambda>x. x \<noteq> CHR ''>'') cs \<noteq> []
          \<and> dropWhile (\<lambda>x. x \<noteq> CHR ''>'') cs \<noteq> []
      then stripTags (tl (dropWhile (\<lambda>x. x \<noteq> CHR ''>'') cs))
      else c # stripTags cs)"
  by pat_completeness auto
termination
proof (relation "measure length")
  fix c :: char and cs :: string
  have "length (dropWhile (\<lambda>x. x \<noteq> CHR ''>'') cs) \<le> length cs"
    by (rule length_dropWhile_le)
  then show "(tl (dropWhile (\<lambda>x. x \<noteq> CHR ''>'') cs), c # cs) \<in> measure length"
    by simp
qed simp_all

section \<open>SHA-256 (\<open>createHash('sha256')\<close>)\<close>

text \<open>
  The digest of FIPS 180-4. A 32-bit word is an integer in \<open>[0, 2^32)\<close>; every addition
  and left shift is reduced modulo \<open>2^32\<close> by \<open>w32\<close>. The message is the list of the
  string's bytes.
\<close>

definition w32 :: "int \<Rightarrow> int" where
  "w32 x = x mod 4294967296"

definition rotr :: "nat \<Rightarrow> int \<Rightarrow> int" where
  "rotr n x = drop_bit n x OR w32 (push_bit (32 - n) x)"

definition Ch :: "int \<Rightarrow> int \<Rightarrow> int \<Rightarrow> int" where
  "Ch x y z = (x AND y) XOR ((4294967295 - x) AND z)"

definition Maj :: "int \<Rightarrow> int \<Rightarrow> int \<Rightarrow> int" where
  "Maj x y z = (x AND y) XOR (x AND z) XOR (y AND z)"

definition bsig0 :: "int \<Rightarrow> int" where
  "bsig0 x = rotr 2 x XOR rotr 13 x XOR rotr 22 x"

definition bsig1 :: "int \<Rightarrow> int" where
  "bsig1 x = rotr 6 x XOR rotr 11 x XOR rotr 25 x"

definition ssig0 :: "int \<Rightarrow> int" where
  "ssig0 x = rotr 7 x XOR rotr 18 x XOR drop_bit 3 x"

definition ssig1 :: "int \<Rightarrow> int" where
  "ssig1 x = rotr 17 x XOR rotr 19 x XOR drop_bit 10 x"

definition sha256_K :: "int list" where
  "sha256_K = [
    1116352408, 1899447441, 3049323471, 3921009573, 961987163, 1508970993, 2453635748, 2870763221,
    3624381080, 310598401, 607225278, 1426881987, 1925078388, 2162078206, 2614888103, 3248222580,
    3835390401, 4022224774, 264347078, 604807628, 770255983, 1249150122, 1555081692, 1996064986,
    2554220882, 2821834349, 2952996808, 3210313671, 3336571891, 3584528711, 113926993, 338241895,
    666307205, 773529912, 1294757372, 1396182291, 1695183700, 1986661051, 2177026350, 2456956037,
    2730485921, 2820302411, 3259730800, 3345764771, 3516065817, 3600352804, 4094571909, 275423344,
    430227734, 506948616, 659060556, 883997877, 958139571, 1322822218, 1537002063, 1747873779,
    1955562222, 2024104815, 2227730452, 2361852424, 2428436474, 2756734187, 3204031479, 3329325298]"

definition sha256_H0 :: "int list" where
  "sha256_H0 = [1779033703, 3144134277, 1013904242, 2773480762,
                1359893119, 2600822924, 528734635, 1541459225]"

text \<open>One round on the eight working variables.\<close>

fun sha256_round :: "int list \<Rightarrow> int \<Rightarrow> int \<Rightarrow> int list" where
  "sha256_round [a, b, c, d, e, f, g, h] k w =
     (let t1 = w32 (h + bsig1 e + Ch e f g + k + w);
          t2 = w32 (bsig0 a + Maj a b c)
      in [w32 (t1 + t2), a, b, c, w32 (d + t1), e, f, g])"
| "sha256_round st k w = st"

text \<open>The 64 rounds; \<open>ws\<close> is the sliding window of the 16 latest schedule words.\<close>

fun sha256_rounds :: "int list \<Rightarrow> int list \<Rightarrow> int list \<Rightarrow> int list" where
  "sha256_rounds [] ws st = st"
| "sha256_rounds (k # ks) ws st =
     sha256_rounds ks
       (tl ws @ [w32 (ssig1 (ws ! 14) + ws ! 9 + ssig0 (ws ! 1) + ws ! 0)])
       (sha256_round st k (ws ! 0))"

definition sha256_block :: "int list \<Rightarrow> int list \<Rightarrow> int list" where
  "sha256_block h ws = map2 (\<lambda>x y. w32 (x + y)) h (sha256_rounds sha256_K ws h)"

fun be_words :: "int list \<Rightarrow> int list" where
  "be_words (a # b # c # d # bs) = (((a * 256 + b) * 256 + c) * 256 + d) # be_words bs"
| "be_words bs = []"

function chunks16 :: "int list \<Rightarrow> int list list" where
  "chunks16 ws = (if length ws < 16 then [] else take 16 ws # chunks16 (drop 16 ws))"
  by pat_completeness auto
termination
  by (relation "measure length") auto

definition sha256_pad :: "int list \<Rightarrow> int list" where
  "sha256_pad m =
     (let l = length m; k = (119 - l mod 64) mod 64; bits = int (8 * l)
      in m @ [128] @ replicate k 0 @ map (\<lambda>i. drop_bit (8 * (7 - i)) bits mod 256) [0..<8])"

definition sha256 :: "int list \<Rightarrow> int list" where
  "sha256 m = foldl sha256_block sha256_H0 (chunks16 (be_words (sha256_pad m)))"

definition hexDigit :: "nat \<Rightarrow> char" where
  "hexDigit n = ''0123456789abcdef'' ! n"

definition hexWord :: "int \<Rightarrow> string" where
  "hexWord w = map (\<lambda>i. hexDigit (nat (drop_bit (4 * (7 - i)) w mod 16))) [0..<8]"

text \<open>\<open>createHash('sha256').update(s).digest('hex')\<close>\<close>

definition sha256_hex :: "string \<Rightarrow> string" where
  "sha256_hex s = concat (map hexWord (sha256 (map of_char s)))"

section \<open>Job normalizers\<close>

text \<open>
  Both normalizers take one raw record and return the normalized record, or \<open>None\<close> where
  the source returns \<open>null\<close> from its \<open>catch\<close>: when the record is \<open>null\<close> or \<open>undefined\<close>,
  when a conversion to a string or a number throws, and (in \<open>mapAdzunaToJob\<close>) when a
  method is called on a value that does not have it. Fields that the source copies from the raw
  record without conversion keep the type \<open>jsval\<close>; an absent optional field is
  \<open>Undefined\<close> (query API) or \<open>Null\<close> (import).
\<close>

record job =
  j_id :: string
  j_title :: jsval
  j_company :: jsval
  j_city :: jsval
  j_salary_min :: jsval
  j_salary_max :: jsval
  j_remote :: bool
  j_lat :: jsval
  j_lon :: jsval
  j_url :: jsval
  j_description :: string
  j_posted_at :: jsval
  j_source :: string

record job_upsert =
  u_source :: string
  u_source_id :: jsval
  u_title :: jsval
  u_company :: jsval
  u_city :: jsval
  u_salary_min :: jsval
  u_salary_max :: jsval
  u_url :: jsval
  u_description :: jsval
  u_posted_at :: jsval
  u_remote :: bool
  u_lat :: jsval
  u_lon :: jsval
  u_uniq_hash :: string

text \<open>\<open>!!(r.contract_type && String(r.contract_type).toLowerCase().includes('remote')) || !!r.remote\<close>\<close>

definition remoteFlag :: "builtins \<Rightarrow> jsval \<Rightarrow> bool option" where
  "remoteFlag B r =
     (if truthy (lookupProp r ''contract_type'') then
        do {
          contract_type \<leftarrow> toString B (lookupProp r ''contract_type'');
          Some (str_includes (toLowerCase contract_type) ''remote''
                \<or> truthy (lookupProp r ''remote''))
        }
      else Some (truthy (lookupProp r ''remote'')))"

text \<open>\<open>typeof r.latitude === 'number' ? r.latitude
       : typeof r.location?.latitude === 'number' ? r.location.latitude : missing\<close>,
  and the same for the longitude.\<close>

definition coordinate :: "string \<Rightarrow> jsval \<Rightarrow> jsval \<Rightarrow> jsval" where
  "coordinate k missing r =
     (if isNumber (lookupProp r k) then lookupProp r k
      else if isNumber (optProp (lookupProp r ''location'') k)
      then lookupProp (lookupProp r ''location'') k
      else missing)"

text \<open>\<open>x ? Number(x) : missing\<close>\<close>

definition salary :: "builtins \<Rightarrow> jsval \<Rightarrow> jsval \<Rightarrow> jsval option" where
  "salary B missing x = (if truthy x then map_option Number (toNumber B x) else Some missing)"

subsection \<open>\<open>mapAdzunaToJob\<close> (pages/api/jobs.ts)\<close>

text \<open>\<open>area.slice(-1)?.[0]\<close> for an \<open>area\<close> that is neither \<open>null\<close> nor \<open>undefined\<close>: arrays and
  strings have \<open>slice\<close>; on any other value the call throws.\<close>

fun sliceLast :: "jsval \<Rightarrow> jsval option" where
  "sliceLast (Arr xs) = Some (if xs = [] then Undefined else last xs)"
| "sliceLast (Str s) = Some (if s = [] then Undefined else Str [last s])"
| "sliceLast v = None"

text \<open>\<open>r.location?.display_name || r.location_display_name
       || r.location?.area?.slice(-1)?.[0] || 'Unknown'\<close>\<close>

definition job_city :: "jsval \<Rightarrow> jsval option" where
  "job_city r =
     (let location = lookupProp r ''location'' in
      if truthy (optProp location ''display_name'') then Some (optProp location ''display_name'')
      else if truthy (lookupProp r ''location_display_name'')
      then Some (lookupProp r ''location_display_name'')
      else if nullish (optProp location ''area'') then Some (Str ''Unknown'')
      else (case sliceLast (optProp location ''area'') of
              None \<Rightarrow> None
            | Some c \<Rightarrow> Some (js_or c (Str ''Unknown''))))"

text \<open>\<open>(r.description || r.summary || '').replace(/<[^>]+>/g, '').slice(0, 2000)\<close>: only a
  string has \<open>replace\<close>.\<close>

definition job_description :: "jsval \<Rightarrow> string option" where
  "job_description r =
     (case js_or (lookupProp r ''description'') (js_or (lookupProp r ''summary'') (Str [])) of
        Str s \<Rightarrow> Some (take 2000 (stripTags s))
      | _ \<Rightarrow> None)"

text \<open>\<open>String(r.id || r.job_id
       || `${r.title}-${r.company?.display_name}-${r.location?.display_name}`)\<close>\<close>

definition job_ident :: "builtins \<Rightarrow> jsval \<Rightarrow> string option" where
  "job_ident B r =
     (if truthy (lookupProp r ''id'') then toString B (lookupProp r ''id'')
      else if truthy (lookupProp r ''job_id'') then toString B (lookupProp r ''job_id'')
      else
        do {
          title \<leftarrow> toString B (lookupProp r ''title'');
          company \<leftarrow> toString B (optProp (lookupProp r ''company'') ''display_name'');
          location \<leftarrow> toString B (optProp (lookupProp r ''location'') ''display_name'');
          Some (title @ ''-'' @ company @ ''-'' @ location)
        })"

definition mapAdzunaToJob :: "builtins \<Rightarrow> jsval \<Rightarrow> job option" where
  "mapAdzunaToJob B r =
     (if nullish r then None
      else
        do {
          ident \<leftarrow> job_ident B r;
          city \<leftarrow> job_city r;
          salary_min \<leftarrow> salary B Undefined (lookupProp r ''salary_min'');
          salary_max \<leftarrow> salary B Undefined (lookupProp r ''salary_max'');
          remote \<leftarrow> remoteFlag B r;
          description \<leftarrow> job_description r;
          Some \<lparr>
            j_id = ident,
            j_title = js_or (lookupProp r ''title'') (Str ''No title''),
            j_company = js_or (optProp (lookupProp r ''company'') ''display_name'')
                (js_or (lookupProp r ''company'') (Str ''Unknown'')),
            j_city = city,
            j_salary_min = salary_min,
            j_salary_max = salary_max,
            j_remote = remote,
            j_lat = coordinate ''latitude'' Undefined r,
            j_lon = coordinate ''longitude'' Undefined r,
            j_url = js_or (lookupProp r ''redirect_url'')
                (js_or (lookupProp r ''url'') (lookupProp r ''source_url'')),
            j_description = description,
            j_posted_at = js_or (lookupProp r ''created'')
                (js_or (lookupProp r ''publication_date'') Undefined),
            j_source = ''adzuna'' \<rparr>
        })"

subsection \<open>\<open>mapAdzunaToUpsert\<close> (app/api/cron/import-adzuna/route.ts)\<close>

text \<open>\<open>r.location?.display_name ?? r.location_display_name
       ?? (Array.isArray(r.location?.area) ? r.location.area.slice(-1)[0] : undefined)
       ?? 'Unknown'\<close>\<close>

definition upsert_city :: "jsval \<Rightarrow> jsval" where
  "upsert_city r =
     (let location = lookupProp r ''location'' in
      js_coalesce (optProp location ''display_name'')
        (js_coalesce (lookupProp r ''location_display_name'')
          (js_coalesce
            (case optProp location ''area'' of
               Arr xs \<Rightarrow> (if xs = [] then Undefined else last xs)
             | _ \<Rightarrow> Undefined)
            (Str ''Unknown''))))"

text \<open>The string that is hashed; only the title is lowercased.
  \<open>`${String(title).toLowerCase()}|${String(company)}|${String(city)}|${String(posted_at ?? '')}`\<close>\<close>

definition hashInput :: "builtins \<Rightarrow> jsval \<Rightarrow> jsval \<Rightarrow> jsval \<Rightarrow> jsval \<Rightarrow> string option" where
  "hashInput B title company city posted_at =
     do {
       t \<leftarrow> toString B title;
       c \<leftarrow> toString B company;
       ci \<leftarrow> toString B city;
       p \<leftarrow> toString B (js_coalesce posted_at (Str []));
       Some (toLowerCase t @ ''|'' @ c @ ''|'' @ ci @ ''|'' @ p)
     }"

text \<open>\<open>r.description ? String(r.description).replace(/<[^>]+>/g, '').slice(0, 4000) : null\<close>\<close>

definition upsert_description :: "builtins \<Rightarrow> jsval \<Rightarrow> jsval option" where
  "upsert_description B r =
     (if truthy (lookupProp r ''description'')
      then map_option (\<lambda>s. Str (take 4000 (stripTags s))) (toString B (lookupProp r ''description''))
      else Some Null)"

text \<open>\<open>r.id ?? (r.job_id ? String(r.job_id) : null)\<close>\<close>

definition upsert_source_id :: "builtins \<Rightarrow> jsval \<Rightarrow> jsval option" where
  "upsert_source_id B r =
     (if nullish (lookupProp r ''id'') then
        (if truthy (lookupProp r ''job_id'')
         then map_option Str (toString B (lookupProp r ''job_id''))
         else Some Null)
      else Some (lookupProp r ''id''))"

definition mapAdzunaToUpsert :: "builtins \<Rightarrow> jsval \<Rightarrow> job_upsert option" where
  "mapAdzunaToUpsert B r =
     (if nullish r then None
      else
        let title = js_coalesce (lookupProp r ''title'') (Str ''No title'');
            company = js_coalesce (optProp (lookupProp r ''company'') ''display_name'')
                (js_coalesce (lookupProp r ''company'') (Str ''Unknown''));
            city = upsert_city r;
            posted_at = js_coalesce (lookupProp r ''created'')
                (js_coalesce (lookupProp r ''publication_date'') Null)
        in
        do {
          salary_min \<leftarrow> salary B Null (lookupProp r ''salary_min'');
          salary_max \<leftarrow> salary B Null (lookupProp r ''salary_max'');
          remote \<leftarrow> remoteFlag B r;
          description \<leftarrow> upsert_description B r;
          source_id \<leftarrow> upsert_source_id B r;
          hashed \<leftarrow> hashInput B title company city posted_at;
          Some \<lparr>
            u_source = ''adzuna'',
            u_source_id = js_coalesce source_id Null,
            u_title = title,
            u_company = company,
            u_city = city,
            u_salary_min = salary_min,
            u_salary_max = salary_max,
            u_url = js_coalesce (lookupProp r ''redirect_url'')
                (js_coalesce (lookupProp r ''url'') Null),
            u_description = description,
            u_posted_at = posted_at,
            u_remote = remote,
            u_lat = coordinate ''latitude'' Null r,
            u_lon = coordinate ''longitude'' Null r,
            u_uniq_hash = take 40 (sha256_hex hashed) \<rparr>
        })"

section \<open>Network and environment\<close>

text \<open>
  Every \<open>fetch\<close> of the program is one of four requests, identified here by the parts of
  the URL and of the body that vary: the Mapbox and Nominatim geocoding queries, one page
  of the Adzuna search (credentials, page, page size) and the Supabase upsert (endpoint,
  service key, and the rows that the source serialises into the body). The outside world
  is a function from the requests issued so far and the current request to what \<open>fetch\<close>
  does: it throws (\<open>Inl\<close> of the error message) or answers. Reading the body of an answer
  as text or as JSON may throw as well. The requests issued are recorded in a log.
\<close>

datatype request =
    MapboxGeocode string string
  | NominatimSearch string
  | AdzunaPage string string nat nat
  | SupabaseUpsert string string "job_upsert list"

record http_response =
  r_ok :: bool
  r_status :: nat
  r_text :: "string + string"
  r_json :: "string + jsval"

type_synonym network = "request list \<Rightarrow> request \<Rightarrow> string + http_response"

text \<open>\<open>process.env\<close>: a variable is unset (\<open>None\<close>) or a string.\<close>

record env =
  env_ADZUNA_APP_ID :: "string option"
  env_ADZUNA_APP_KEY :: "string option"
  env_SUPABASE_URL :: "string option"
  env_SUPABASE_SERVICE_ROLE :: "string option"
  env_CRON_SECRET :: "string option"
  env_MAPBOX_TOKEN :: "string option"

text \<open>\<open>x ?? ''\<close> and \<open>x || ''\<close> on a string that may be missing.\<close>

definition orEmpty :: "string option \<Rightarrow> string" where
  "orEmpty x = (case x of None \<Rightarrow> [] | Some s \<Rightarrow> s)"

section \<open>Geocode resolver (utils/geocode.ts)\<close>

definition MAPBOX_TOKEN :: "env \<Rightarrow> string" where
  "MAPBOX_TOKEN E = orEmpty (env_MAPBOX_TOKEN E)"

definition USE_MAPBOX :: "env \<Rightarrow> bool" where
  "USE_MAPBOX E = (MAPBOX_TOKEN E \<noteq> [])"

text \<open>The result is the thrown error or the returned \<open>Geo\<close> value (\<open>Null\<close> or an object
  with \<open>lat\<close> and \<open>lon\<close>), with the extended log.\<close>

definition geocodeMapbox ::
  "env \<Rightarrow> network \<Rightarrow> request list \<Rightarrow> string \<Rightarrow> (string + jsval) \<times> request list" where
  "geocodeMapbox E net sent query =
     (if \<not> USE_MAPBOX E then (Inr Null, sent)
      else
        let rq = MapboxGeocode (MAPBOX_TOKEN E) query; sent' = sent @ [rq] in
        case net sent rq of
          Inl err \<Rightarrow> (Inl err, sent')
        | Inr r \<Rightarrow>
            if \<not> r_ok r then (Inr Null, sent')
            else (case r_json r of
              Inl err \<Rightarrow> (Inl err, sent')
            | Inr j \<Rightarrow>
                let features = optProp j ''features'';
                    c = (if nullish features then Undefined else elemAt features 0)
                in if \<not> truthy c then (Inr Null, sent')
                   else if nullish (lookupProp c ''center'')
                   then (Inl ''TypeError: cannot read properties of undefined'', sent')
                   else (Inr (Obj [(''lat'', elemAt (lookupProp c ''center'') 1),
                                   (''lon'', elemAt (lookupProp c ''center'') 0)]), sent')))"

text \<open>The throttle delays a call and never drops it, so the throttled function returns
  what the wrapped function returns.\<close>

definition geocodeNominatimThrottled ::
  "builtins \<Rightarrow> network \<Rightarrow> request list \<Rightarrow> string \<Rightarrow> (string + jsval) \<times> request list" where
  "geocodeNominatimThrottled B net sent query =
     (let rq = NominatimSearch query; sent' = sent @ [rq] in
      case net sent rq of
        Inl err \<Rightarrow> (Inl err, sent')
      | Inr r \<Rightarrow>
          if \<not> r_ok r then (Inr Null, sent')
          else (case r_json r of
            Inl err \<Rightarrow> (Inl err, sent')
          | Inr j \<Rightarrow>
              let item = (if nullish j then Undefined else elemAt j 0)
              in if \<not> truthy item then (Inr Null, sent')
                 else (case toNumber B (lookupProp item ''lat'') of
                   None \<Rightarrow> (Inl ''TypeError: cannot convert object to primitive value'', sent')
                 | Some lat \<Rightarrow>
                     (case toNumber B (lookupProp item ''lon'') of
                        None \<Rightarrow> (Inl ''TypeError: cannot convert object to primitive value'', sent')
                      | Some lon \<Rightarrow>
                          (Inr (Obj [(''lat'', Number lat), (''lon'', Number lon)]), sent')))))"

type_synonym geo_cache = "string \<rightharpoonup> jsval"

definition cacheKey :: "string option \<Rightarrow> string option \<Rightarrow> string" where
  "cacheKey company city =
     toLowerCase (trim (orEmpty company)) @ ''|'' @ toLowerCase (trim (orEmpty city))"

definition geocodeQuery :: "string option \<Rightarrow> string option \<Rightarrow> string" where
  "geocodeQuery company city =
     (if orEmpty company \<noteq> [] then orEmpty company @ '' '' else []) @ orEmpty city"

text \<open>The body of the \<open>try\<close> block: the primary provider when it is enabled, then the
  secondary one when there is no result yet. A throw leaves the block at once.\<close>

definition resolveProviders ::
  "builtins \<Rightarrow> env \<Rightarrow> network \<Rightarrow> request list \<Rightarrow> string \<Rightarrow> (string + jsval) \<times> request list" where
  "resolveProviders B E net sent q =
     (case (if USE_MAPBOX E then geocodeMapbox E net sent q else (Inr Null, sent)) of
        (Inl err, sent1) \<Rightarrow> (Inl err, sent1)
      | (Inr res, sent1) \<Rightarrow>
          if \<not> truthy res then geocodeNominatimThrottled B net sent1 q
          else (Inr res, sent1))"

text \<open>The resolver returns the thrown error or the value, with the new cache and log.\<close>

definition fetchGeocodeIfNeeded ::
  "builtins \<Rightarrow> env \<Rightarrow> network \<Rightarrow> string option \<Rightarrow> string option
     \<Rightarrow> geo_cache \<times> request list \<Rightarrow> (string + jsval) \<times> geo_cache \<times> request list" where
  "fetchGeocodeIfNeeded B E net company city st =
     (case st of (cache, sent) \<Rightarrow>
        let key = cacheKey company city in
        if orEmpty company = [] \<and> orEmpty city = [] then (Inr Null, cache, sent)
        else (case cache key of
          Some v \<Rightarrow> (Inr (js_or v Null), cache, sent)
        | None \<Rightarrow>
            (case resolveProviders B E net sent (geocodeQuery company city) of
               (Inr res, sent') \<Rightarrow> (Inr res, cache(key \<mapsto> res), sent')
             | (Inl err, sent') \<Rightarrow> (Inr Null, cache(key \<mapsto> Null), sent'))))"

section \<open>Import route (app/api/cron/import-adzuna/route.ts)\<close>

definition ADZUNA_APP_ID :: "env \<Rightarrow> string" where
  "ADZUNA_APP_ID E = orEmpty (env_ADZUNA_APP_ID E)"

definition ADZUNA_APP_KEY :: "env \<Rightarrow> string" where
  "ADZUNA_APP_KEY E = orEmpty (env_ADZUNA_APP_KEY E)"

definition SUPABASE_URL :: "env \<Rightarrow> string" where
  "SUPABASE_URL E = orEmpty (env_SUPABASE_URL E)"

definition SUPABASE_SERVICE_ROLE :: "env \<Rightarrow> string" where
  "SUPABASE_SERVICE_ROLE E = orEmpty (env_SUPABASE_SERVICE_ROLE E)"

definition CRON_SECRET :: "env \<Rightarrow> string" where
  "CRON_SECRET E = orEmpty (env_CRON_SECRET E)"

record response =
  resp_status :: nat
  resp_body :: jsval

definition jsonResponse :: "nat \<Rightarrow> (string \<times> jsval) list \<Rightarrow> response" where
  "jsonResponse st kvs = \<lparr>resp_status = st, resp_body = Obj kvs\<rparr>"

definition fetchAdzunaPage ::
  "env \<Rightarrow> network \<Rightarrow> request list \<Rightarrow> nat \<Rightarrow> nat \<Rightarrow> (string + jsval) \<times> request list" where
  "fetchAdzunaPage E net sent page results_per_page =
     (let rq = AdzunaPage (ADZUNA_APP_ID E) (ADZUNA_APP_KEY E) page results_per_page;
          sent' = sent @ [rq] in
      case net sent rq of
        Inl err \<Rightarrow> (Inl err, sent')
      | Inr r \<Rightarrow>
          if \<not> r_ok r then
            (case r_text r of
               Inl err \<Rightarrow> (Inl err, sent')
             | Inr txt \<Rightarrow>
                 (Inl (''Adzuna fetch failed '' @ natString (r_status r) @ '': '' @ txt), sent'))
          else (r_json r, sent'))"

fun arrayElems :: "jsval \<Rightarrow> jsval list" where
  "arrayElems (Arr xs) = xs"
| "arrayElems v = []"

text \<open>The loop over \<open>pagesToFetch\<close>: a page whose JSON is falsy or has no array \<open>results\<close>
  is skipped; a throw ends the loop.\<close>

fun fetchPages ::
  "env \<Rightarrow> network \<Rightarrow> nat list \<Rightarrow> nat \<Rightarrow> jsval list \<Rightarrow> request list
     \<Rightarrow> (string + jsval list) \<times> request list" where
  "fetchPages E net [] resultsPerPage allResults sent = (Inr allResults, sent)"
| "fetchPages E net (p # ps) resultsPerPage allResults sent =
     (case fetchAdzunaPage E net sent p resultsPerPage of
        (Inl err, sent') \<Rightarrow> (Inl err, sent')
      | (Inr json, sent') \<Rightarrow>
          if \<not> truthy json \<or> \<not> isArray (lookupProp json ''results'')
          then fetchPages E net ps resultsPerPage allResults sent'
          else fetchPages E net ps resultsPerPage
                 (allResults @ arrayElems (lookupProp json ''results'')) sent')"

text \<open>The loop that maps every raw record and keeps the results that are not \<open>null\<close>.\<close>

fun collectUpserts :: "builtins \<Rightarrow> jsval list \<Rightarrow> job_upsert list" where
  "collectUpserts B [] = []"
| "collectUpserts B (r # rs) =
     (case mapAdzunaToUpsert B r of
        None \<Rightarrow> collectUpserts B rs
      | Some mapped \<Rightarrow> mapped # collectUpserts B rs)"

text \<open>\<open>SUPABASE_URL.replace(/\/$/, '')\<close>\<close>

definition dropTrailingSlash :: "string \<Rightarrow> string" where
  "dropTrailingSlash s = (if s \<noteq> [] \<and> last s = CHR ''/'' then butlast s else s)"

definition importFailed :: "string \<Rightarrow> response" where
  "importFailed err = jsonResponse 500 [(''message'', Str ''Import failed''), (''hint'', Str err)]"

definition imported :: "nat \<Rightarrow> response" where
  "imported n = jsonResponse 200 [(''imported'', Number (Num (real n)))]"

text \<open>The handler of the import trigger. \<open>header\<close> is the value of \<open>x-cron-secret\<close>
  (\<open>None\<close> when the request does not carry it). The result is the response and the log of
  the requests issued.\<close>

definition POST ::
  "builtins \<Rightarrow> env \<Rightarrow> network \<Rightarrow> string option \<Rightarrow> request list \<Rightarrow> response \<times> request list" where
  "POST B E net header sent =
     (let secret = orEmpty header in
      if CRON_SECRET E = [] \<or> secret \<noteq> CRON_SECRET E then
        (jsonResponse 401 [(''message'', Str ''Unauthorized''),
            (''hint'', Str ''Invalid or missing x-cron-secret header'')], sent)
      else if ADZUNA_APP_ID E = [] \<or> ADZUNA_APP_KEY E = [] then
        (jsonResponse 500 [(''message'', Str ''Server misconfiguration''),
            (''hint'', Str ''ADZUNA_APP_ID and ADZUNA_APP_KEY must be set'')], sent)
      else if SUPABASE_URL E = [] \<or> SUPABASE_SERVICE_ROLE E = [] then
        (jsonResponse 500 [(''message'', Str ''Server misconfiguration''),
            (''hint'', Str ''SUPABASE_URL and SUPABASE_SERVICE_ROLE must be set'')], sent)
      else
        case fetchPages E net [1, 2, 3] 50 [] sent of
          (Inl err, sent1) \<Rightarrow> (importFailed err, sent1)
        | (Inr allResults, sent1) \<Rightarrow>
            let upserts = collectUpserts B allResults in
            if length upserts = 0 then (imported 0, sent1)
            else
              let rq = SupabaseUpsert
                    (dropTrailingSlash (SUPABASE_URL E) @ ''/rest/v1/jobs?on_conflict=uniq_hash'')
                    (SUPABASE_SERVICE_ROLE E) upserts;
                  sent2 = sent1 @ [rq] in
              case net sent1 rq of
                Inl err \<Rightarrow> (importFailed err, sent2)
              | Inr resp \<Rightarrow>
                  if \<not> r_ok resp then
                    (case r_text resp of
                       Inl err \<Rightarrow> (importFailed err, sent2)
                     | Inr text \<Rightarrow>
                         (jsonResponse 502 [(''message'', Str ''Failed to upsert to Supabase''),
                             (''hint'', Str text)], sent2))
                  else
                    (imported
                       (case r_json resp of
                          Inl err \<Rightarrow> length upserts
                        | Inr (Arr rows) \<Rightarrow> length rows
                        | Inr (Obj kvs) \<Rightarrow> 1
                        | Inr v \<Rightarrow> 0), sent2))"

section \<open>Spatial filter and sort of the query handler (pages/api/jobs.ts)\<close>

text \<open>A value of \<open>req.query\<close>: absent, one string, or a list of strings.\<close>

datatype qparam = QAbsent | QStr string | QArr "string list"

fun q_truthy :: "qparam \<Rightarrow> bool" where
  "q_truthy QAbsent = False"
| "q_truthy (QStr s) = (s \<noteq> [])"
| "q_truthy (QArr xs) = True"

fun q_number :: "builtins \<Rightarrow> qparam \<Rightarrow> jsnum" where
  "q_number B QAbsent = NaN"
| "q_number B (QStr s) = stringToNumber B s"
| "q_number B (QArr xs) = stringToNumber B (joinWith '','' xs)"

fun splitOn :: "char \<Rightarrow> string \<Rightarrow> string list" where
  "splitOn sep [] = [[]]"
| "splitOn sep (c # cs) =
     (if c = sep then [] # splitOn sep cs
      else (case splitOn sep cs of [] \<Rightarrow> [[c]] | x # xs \<Rightarrow> (c # x) # xs))"

text \<open>\<open>bbox.split(',').map(Number).filter((n) => !Number.isNaN(n))\<close>\<close>

fun dropNaN :: "jsnum list \<Rightarrow> real list" where
  "dropNaN [] = []"
| "dropNaN (NaN # ns) = dropNaN ns"
| "dropNaN (Num x # ns) = x # dropNaN ns"

definition bboxParts :: "builtins \<Rightarrow> string \<Rightarrow> real list" where
  "bboxParts B bbox = dropNaN (map (stringToNumber B) (splitOn CHR '','' bbox))"

text \<open>Comparisons of a job's coordinate (converted to a number) with a bound; a
  comparison with \<open>NaN\<close> is false.\<close>

fun num_ge :: "jsnum \<Rightarrow> real \<Rightarrow> bool" where
  "num_ge NaN y = False"
| "num_ge (Num x) y = (x \<ge> y)"

fun num_le :: "jsnum \<Rightarrow> real \<Rightarrow> bool" where
  "num_le NaN y = False"
| "num_le (Num x) y = (x \<le> y)"

record bounds =
  minLon :: real
  maxLon :: real
  minLat :: real
  maxLat :: real

text \<open>The box read from the four numbers \<open>a, b, c, d\<close>: first as
  \<open>minLon,minLat,maxLon,maxLat\<close>, then swapped when the test of the source holds.\<close>

definition bboxBounds :: "real \<Rightarrow> real \<Rightarrow> real \<Rightarrow> real \<Rightarrow> bounds" where
  "bboxBounds a b c d =
     (if \<bar>a\<bar> \<le> 90 \<and> \<bar>c\<bar> \<le> 90 \<and> \<bar>b\<bar> \<le> 180 \<and> \<bar>d\<bar> \<le> 180
      then \<lparr>minLon = min b d, maxLon = max b d, minLat = min a c, maxLat = max a c\<rparr>
      else \<lparr>minLon = min a c, maxLon = max a c, minLat = min b d, maxLat = max b d\<rparr>)"

text \<open>\<open>j.lat >= minLat && j.lat <= maxLat && j.lon >= minLon && j.lon <= maxLon\<close>. A
  comparison converts the coordinate to a number, which can throw (\<open>None\<close>); \<open>&&\<close>
  evaluates its right operand only when the left one is true, so the longitude is
  converted only for a latitude inside the bounds.\<close>

definition inBounds :: "builtins \<Rightarrow> bounds \<Rightarrow> job \<Rightarrow> bool option" where
  "inBounds B bb j =
     do {
       lat \<leftarrow> toNumber B (j_lat j);
       if \<not> (num_ge lat (minLat bb) \<and> num_le lat (maxLat bb)) then Some False
       else
         do {
           lon \<leftarrow> toNumber B (j_lon j);
           Some (num_ge lon (minLon bb) \<and> num_le lon (maxLon bb))
         }
     }"

definition toRad :: "real \<Rightarrow> real" where
  "toRad deg = (deg * pi) / 180"

definition atan2 :: "real \<Rightarrow> real \<Rightarrow> real" where
  "atan2 y x =
     (if x > 0 then arctan (y / x)
      else if x < 0 then (if y \<ge> 0 then arctan (y / x) + pi else arctan (y / x) - pi)
      else if y > 0 then pi / 2 else if y < 0 then - pi / 2 else 0)"

definition haversine :: "real \<Rightarrow> real \<Rightarrow> real \<Rightarrow> real \<Rightarrow> real" where
  "haversine lat1 lon1 lat2 lon2 =
     (let dLat = toRad (lat2 - lat1);
          dLon = toRad (lon2 - lon1);
          a = sin (dLat / 2) * sin (dLat / 2)
              + cos (toRad lat1) * cos (toRad lat2) * sin (dLon / 2) * sin (dLon / 2);
          c = 2 * atan2 (sqrt a) (sqrt (1 - a))
      in 6371 * c)"

text \<open>\<open>haversine(centerLat, centerLon, j.lat, j.lon) <= radius\<close>; false as soon as one
  of the numbers is \<open>NaN\<close>.\<close>

fun withinRadius :: "jsnum \<Rightarrow> jsnum \<Rightarrow> jsnum \<Rightarrow> jsnum \<Rightarrow> jsnum \<Rightarrow> bool" where
  "withinRadius (Num centerLat) (Num centerLon) (Num radius) (Num lat) (Num lon) =
     (haversine centerLat centerLon lat lon \<le> radius)"
| "withinRadius centerLat centerLon radius lat lon = False"

text \<open>
  Arrays are mutable and shared, so the handler runs on a store of arrays addressed by
  position. \<open>Array.prototype.filter\<close> allocates a new array; \<open>Array.prototype.sort\<close>
  writes the sorted elements back into the array it is called on. No step of the filter
  or of the sort assigns to a field of a job, so an array holds the job records themselves.
  A conversion that throws inside the filter or the sort ends the step with an exception
  (\<open>None\<close>), which the handler answers with status 500.
\<close>

type_synonym arrays = "job list list"

definition newArray :: "job list \<Rightarrow> arrays \<Rightarrow> nat \<times> arrays" where
  "newArray xs h = (length h, h @ [xs])"

record query =
  q_bbox :: qparam
  q_center_lat :: qparam
  q_center_lon :: qparam
  q_radius_km :: qparam
  q_sort :: qparam

fun isNonEmptyString :: "qparam \<Rightarrow> bool" where
  "isNonEmptyString (QStr s) = (length s > 0)"
| "isNonEmptyString v = False"

fun q_string :: "qparam \<Rightarrow> string" where
  "q_string (QStr s) = s"
| "q_string v = []"

text \<open>\<open>xs.filter(p)\<close>: the elements are tested in order; a test that throws ends the
  filter.\<close>

fun filterOpt :: "('a \<Rightarrow> bool option) \<Rightarrow> 'a list \<Rightarrow> 'a list option" where
  "filterOpt p [] = Some []"
| "filterOpt p (x # xs) =
     (case p x of
        None \<Rightarrow> None
      | Some keep \<Rightarrow> map_option (\<lambda>ys. if keep then x # ys else ys) (filterOpt p xs))"

text \<open>\<open>haversine(centerLat, centerLon, j.lat, j.lon) <= radius\<close> for a job: the function
  converts the latitude (in \<open>lat2 - lat1\<close>) and then the longitude (in \<open>lon2 - lon1\<close>).\<close>

definition inRadius :: "builtins \<Rightarrow> query \<Rightarrow> job \<Rightarrow> bool option" where
  "inRadius B q j =
     do {
       lat \<leftarrow> toNumber B (j_lat j);
       lon \<leftarrow> toNumber B (j_lon j);
       Some (withinRadius (q_number B (q_center_lat q)) (q_number B (q_center_lon q))
               (q_number B (q_radius_km q)) lat lon)
     }"

text \<open>The spatial filter. \<open>jobsWithCoords\<close> is the address of the input array; the
  result is the address held by \<open>filtered\<close> afterwards, which is the input array itself
  when no filter applies, with the new store. When the filter throws, nothing has been
  assigned and the store is the one before.\<close>

definition spatialFilter :: "builtins \<Rightarrow> query \<Rightarrow> nat \<Rightarrow> arrays \<Rightarrow> (nat \<times> arrays) option" where
  "spatialFilter B q jobsWithCoords h =
     (if isNonEmptyString (q_bbox q) then
        (case bboxParts B (q_string (q_bbox q)) of
           [a, b, c, d] \<Rightarrow>
             map_option (\<lambda>xs. newArray xs h)
               (filterOpt (inBounds B (bboxBounds a b c d)) (h ! jobsWithCoords))
         | _ \<Rightarrow> Some (jobsWithCoords, h))
      else if q_truthy (q_center_lat q) \<and> q_truthy (q_center_lon q)
              \<and> q_truthy (q_radius_km q) then
        map_option (\<lambda>xs. newArray xs h) (filterOpt (inRadius B q) (h ! jobsWithCoords))
      else Some (jobsWithCoords, h))"

subsection \<open>Sorting\<close>

fun num_sub :: "jsnum \<Rightarrow> jsnum \<Rightarrow> jsnum" where
  "num_sub (Num x) (Num y) = Num (x - y)"
| "num_sub x y = NaN"

text \<open>\<open>(b.salary_max ?? 0) - (a.salary_max ?? 0)\<close>; the subtraction converts its left
  operand, then its right operand.\<close>

definition salaryDesc :: "builtins \<Rightarrow> job \<Rightarrow> job \<Rightarrow> jsnum option" where
  "salaryDesc B a b =
     do {
       x \<leftarrow> toNumber B (js_coalesce (j_salary_max b) (Number (Num 0)));
       y \<leftarrow> toNumber B (js_coalesce (j_salary_max a) (Number (Num 0)));
       Some (num_sub x y)
     }"

text \<open>\<open>(a.salary_min ?? 0) - (b.salary_min ?? 0)\<close>\<close>

definition salaryAsc :: "builtins \<Rightarrow> job \<Rightarrow> job \<Rightarrow> jsnum option" where
  "salaryAsc B a b =
     do {
       x \<leftarrow> toNumber B (js_coalesce (j_salary_min a) (Number (Num 0)));
       y \<leftarrow> toNumber B (js_coalesce (j_salary_min b) (Number (Num 0)));
       Some (num_sub x y)
     }"

text \<open>\<open>x.posted_at ? Date.parse(x.posted_at) : 0\<close>; \<open>Date.parse\<close> converts its argument to
  a string.\<close>

definition postedTime :: "builtins \<Rightarrow> job \<Rightarrow> jsnum option" where
  "postedTime B x =
     (if truthy (j_posted_at x) then map_option (dateParse B) (toString B (j_posted_at x))
      else Some (Num 0))"

definition dateDesc :: "builtins \<Rightarrow> job \<Rightarrow> job \<Rightarrow> jsnum option" where
  "dateDesc B a b =
     do {
       da \<leftarrow> postedTime B a;
       db \<leftarrow> postedTime B b;
       Some (num_sub db da)
     }"

text \<open>
  \<open>Array.prototype.sort\<close> with a comparator: the sort is stable, and a comparator result
  of \<open>NaN\<close> counts as \<open>0\<close>. For a comparator that orders the elements consistently every
  implementation produces the list below (stable insertion); for an inconsistent one the
  language leaves the order open and the list below is one of the allowed results. A
  comparator that throws ends the sort with its exception (\<open>None\<close>). The comparators above
  throw exactly when the conversion of one of their two arguments throws, and sorting a
  list of two or more elements compares every element at least once, so whether the sort
  throws does not depend on the sorting procedure either.
\<close>

fun compareValue :: "jsnum \<Rightarrow> real" where
  "compareValue NaN = 0"
| "compareValue (Num x) = x"

fun insertSorted :: "(job \<Rightarrow> job \<Rightarrow> jsnum option) \<Rightarrow> job \<Rightarrow> job list \<Rightarrow> job list option" where
  "insertSorted cmp x [] = Some [x]"
| "insertSorted cmp x (y # ys) =
     (case cmp x y of
        None \<Rightarrow> None
      | Some c \<Rightarrow>
          if compareValue c \<le> 0 then Some (x # y # ys)
          else map_option (\<lambda>zs. y # zs) (insertSorted cmp x ys))"

fun arraySort :: "(job \<Rightarrow> job \<Rightarrow> jsnum option) \<Rightarrow> job list \<Rightarrow> job list option" where
  "arraySort cmp [] = Some []"
| "arraySort cmp (x # xs) =
     (case arraySort cmp xs of
        None \<Rightarrow> None
      | Some ys \<Rightarrow> insertSorted cmp x ys)"

text \<open>\<open>xs.sort(cmp)\<close> on the array at address \<open>filtered\<close>. The language sorts a list of the
  array's values and writes the sorted list back into the array after the last
  comparison, so a sort that throws (\<open>None\<close>) has written nothing into the array.\<close>

definition sortInPlace ::
  "(job \<Rightarrow> job \<Rightarrow> jsnum option) \<Rightarrow> nat \<Rightarrow> arrays \<Rightarrow> arrays option" where
  "sortInPlace cmp filtered h = map_option (\<lambda>xs. h[filtered := xs]) (arraySort cmp (h ! filtered))"

text \<open>The sort step of the handler.\<close>

definition sortStep :: "builtins \<Rightarrow> query \<Rightarrow> nat \<Rightarrow> arrays \<Rightarrow> arrays option" where
  "sortStep B q filtered h =
     (if q_sort q = QStr ''salary_desc'' then sortInPlace (salaryDesc B) filtered h
      else if q_sort q = QStr ''salary_asc'' then sortInPlace (salaryAsc B) filtered h
      else if q_sort q = QStr ''date_desc'' then sortInPlace (dateDesc B) filtered h
      else Some h)"

text \<open>The two steps in sequence. The result is the address held by \<open>filtered\<close> at the end,
  or \<open>None\<close> when a step has thrown, with the store at that moment.\<close>

definition filterAndSort :: "builtins \<Rightarrow> query \<Rightarrow> nat \<Rightarrow> arrays \<Rightarrow> nat option \<times> arrays" where
  "filterAndSort B q jobsWithCoords h =
     (case spatialFilter B q jobsWithCoords h of
        None \<Rightarrow> (None, h)
      | Some (filtered, h') \<Rightarrow>
          (case sortStep B q filtered h' of
             None \<Rightarrow> (None, h')
           | Some h'' \<Rightarrow> (Some filtered, h'')))"

section \<open>A reference instance of the built-ins\<close>

text \<open>
  The closed examples need concrete conversions. The instance below reads decimal
  literals (sign, digits, fraction, exponent; surrounding white space; the empty string is
  \<open>0\<close>), prints a non-negative or negative number in positional decimal notation with at
  most 17 fraction digits, and reads timestamps of the form \<open>YYYY-MM-DDTHH:mm:ssZ\<close>. On
  these inputs it agrees with \<open>Number\<close>, \<open>String\<close> and \<open>Date.parse\<close> up to the rounding of
  doubles; \<open>Infinity\<close>, hexadecimal literals, exponent notation in printing and the other
  date formats are not covered (they read as \<open>NaN\<close>).
\<close>

definition isDigit :: "char \<Rightarrow> bool" where
  "isDigit c = (let n = (of_char c :: nat) in 48 \<le> n \<and> n \<le> 57)"

definition digitsValue :: "string \<Rightarrow> nat" where
  "digitsValue s = foldl (\<lambda>n c. 10 * n + (of_char c - 48)) 0 s"

definition parseMantissa :: "string \<Rightarrow> real option" where
  "parseMantissa s =
     (let ip = takeWhile isDigit s; rest = dropWhile isDigit s in
      case rest of
        [] \<Rightarrow> if ip = [] then None else Some (real (digitsValue ip))
      | c # fp \<Rightarrow>
          if c = CHR ''.'' \<and> list_all isDigit fp \<and> \<not> (ip = [] \<and> fp = [])
          then Some (real (digitsValue ip) + real (digitsValue fp) / 10 ^ length fp)
          else None)"

definition parseExponent :: "string \<Rightarrow> int option" where
  "parseExponent s =
     (case s of
        [] \<Rightarrow> None
      | c # ds \<Rightarrow>
          if c = CHR ''-'' then
            (if ds \<noteq> [] \<and> list_all isDigit ds then Some (- int (digitsValue ds)) else None)
          else if c = CHR ''+'' then
            (if ds \<noteq> [] \<and> list_all isDigit ds then Some (int (digitsValue ds)) else None)
          else if list_all isDigit s then Some (int (digitsValue s)) else None)"

definition isExpChar :: "char \<Rightarrow> bool" where
  "isExpChar c = (c = CHR ''e'' \<or> c = CHR ''E'')"

definition parseUnsigned :: "string \<Rightarrow> real option" where
  "parseUnsigned s =
     (let m = takeWhile (\<lambda>c. \<not> isExpChar c) s; rest = dropWhile (\<lambda>c. \<not> isExpChar c) s in
      case rest of
        [] \<Rightarrow> parseMantissa m
      | e # ex \<Rightarrow>
          (case (parseMantissa m, parseExponent ex) of
             (Some a, Some k) \<Rightarrow> Some (if k \<ge> 0 then a * 10 ^ nat k else a / 10 ^ nat (- k))
           | _ \<Rightarrow> None))"

definition parseDecimal :: "string \<Rightarrow> jsnum" where
  "parseDecimal s =
     (let t = trim s in
      case t of
        [] \<Rightarrow> Num 0
      | c # u \<Rightarrow>
          if c = CHR ''-'' then (case parseUnsigned u of None \<Rightarrow> NaN | Some x \<Rightarrow> Num (- x))
          else if c = CHR ''+'' then (case parseUnsigned u of None \<Rightarrow> NaN | Some x \<Rightarrow> Num x)
          else (case parseUnsigned t of None \<Rightarrow> NaN | Some x \<Rightarrow> Num x))"

fun fractionDigits :: "nat \<Rightarrow> real \<Rightarrow> string" where
  "fractionDigits 0 f = []"
| "fractionDigits (Suc n) f =
     (if f = 0 then []
      else (''0123456789'' ! nat \<lfloor>10 * f\<rfloor>) # fractionDigits n (10 * f - real_of_int \<lfloor>10 * f\<rfloor>))"

definition printUnsigned :: "real \<Rightarrow> string" where
  "printUnsigned x =
     natString (nat \<lfloor>x\<rfloor>)
       @ (if x = real_of_int \<lfloor>x\<rfloor> then []
          else ''.'' @ fractionDigits 17 (x - real_of_int \<lfloor>x\<rfloor>))"

definition printDecimal :: "real \<Rightarrow> string" where
  "printDecimal x = (if x < 0 then ''-'' @ printUnsigned (- x) else printUnsigned x)"

text \<open>Days from 1970-01-01 to the given civil date (proleptic Gregorian calendar).\<close>

definition daysFromCivil :: "int \<Rightarrow> int \<Rightarrow> int \<Rightarrow> int" where
  "daysFromCivil y m d =
     (let y' = (if m \<le> 2 then y - 1 else y);
          era = y' div 400;
          yoe = y' mod 400;
          doy = (153 * (if m > 2 then m - 3 else m + 9) + 2) div 5 + d - 1;
          doe = yoe * 365 + yoe div 4 - yoe div 100 + doy
      in era * 146097 + doe - 719468)"

definition daysInMonth :: "int \<Rightarrow> int \<Rightarrow> int" where
  "daysInMonth y m =
     (if m = 2 then (if y mod 4 = 0 \<and> \<not> (y mod 100 = 0 \<and> y mod 400 \<noteq> 0) then 29 else 28)
      else if m = 4 \<or> m = 6 \<or> m = 9 \<or> m = 11 then 30 else 31)"

definition field :: "string \<Rightarrow> nat \<Rightarrow> nat \<Rightarrow> int" where
  "field s i n = int (digitsValue (take n (drop i s)))"

definition parseIsoUtc :: "string \<Rightarrow> jsnum" where
  "parseIsoUtc s =
     (if length s = 20
         \<and> list_all isDigit (take 4 s @ take 2 (drop 5 s) @ take 2 (drop 8 s)
              @ take 2 (drop 11 s) @ take 2 (drop 14 s) @ take 2 (drop 17 s))
         \<and> s ! 4 = CHR ''-'' \<and> s ! 7 = CHR ''-'' \<and> s ! 10 = CHR ''T''
         \<and> s ! 13 = CHR '':'' \<and> s ! 16 = CHR '':'' \<and> s ! 19 = CHR ''Z''
         \<and> 1 \<le> field s 5 2 \<and> field s 5 2 \<le> 12
         \<and> 1 \<le> field s 8 2 \<and> field s 8 2 \<le> daysInMonth (field s 0 4) (field s 5 2)
         \<and> field s 11 2 \<le> 23 \<and> field s 14 2 \<le> 59 \<and> field s 17 2 \<le> 59
      then Num (real_of_int
             ((((daysFromCivil (field s 0 4) (field s 5 2) (field s 8 2) * 24
                  + field s 11 2) * 60 + field s 14 2) * 60 + field s 17 2) * 1000))
      else NaN)"

definition referenceBuiltins :: builtins where
  "referenceBuiltins =
     \<lparr>numberToString = printDecimal, stringToNumber = parseDecimal, dateParse = parseIsoUtc\<rparr>"

section \<open>Notions used in the statements\<close>

text \<open>The raw record carries a number for the coordinate \<open>k\<close>, at the top level or in its
  \<open>location\<close> object.\<close>

definition hasNumeric :: "string \<Rightarrow> jsval \<Rightarrow> bool" where
  "hasNumeric k r =
     (isNumber (lookupProp r k) \<or> isNumber (optProp (lookupProp r ''location'') k))"

fun isUpsert :: "request \<Rightarrow> bool" where
  "isUpsert (SupabaseUpsert u k rows) = True"
| "isUpsert rq = False"

fun isNominatim :: "request \<Rightarrow> bool" where
  "isNominatim (NominatimSearch q) = True"
| "isNominatim rq = False"

text \<open>The query makes the spatial filter build a new array.\<close>

definition filterApplies :: "builtins \<Rightarrow> query \<Rightarrow> bool" where
  "filterApplies B q =
     (if isNonEmptyString (q_bbox q) then length (bboxParts B (q_string (q_bbox q))) = 4
      else q_truthy (q_center_lat q) \<and> q_truthy (q_center_lon q) \<and> q_truthy (q_radius_km q))"

subsection \<open>Example data\<close>

definition exampleJob :: "string \<Rightarrow> jsval \<Rightarrow> jsval \<Rightarrow> jsval \<Rightarrow> job" where
  "exampleJob i sal la lo =
     \<lparr>j_id = i, j_title = Str ''No title'', j_company = Str ''Unknown'', j_city = Str ''Unknown'',
      j_salary_min = Undefined, j_salary_max = sal, j_remote = False, j_lat = la, j_lon = lo,
      j_url = Undefined, j_description = [], j_posted_at = Undefined, j_source = ''adzuna''\<rparr>"

definition noQuery :: query where
  "noQuery = \<lparr>q_bbox = QAbsent, q_center_lat = QAbsent, q_center_lon = QAbsent,
              q_radius_km = QAbsent, q_sort = QAbsent\<rparr>"

definition exampleEnv :: env where
  "exampleEnv =
     \<lparr>env_ADZUNA_APP_ID = Some ''id'', env_ADZUNA_APP_KEY = Some ''key'',
      env_SUPABASE_URL = Some ''https://db.example/'', env_SUPABASE_SERVICE_ROLE = Some ''role'',
      env_CRON_SECRET = Some ''s3cret'', env_MAPBOX_TOKEN = Some ''tok''\<rparr>"

definition okResponse :: "jsval \<Rightarrow> http_response" where
  "okResponse j = \<lparr>r_ok = True, r_status = 200, r_text = Inr [], r_json = Inr j\<rparr>"

text \<open>A world in which every request fails.\<close>

definition offline :: network where
  "offline hist rq = Inl ''fetch failed''"

text \<open>A world in which Mapbox cannot be reached and Nominatim knows the place.\<close>

definition mapboxDown :: network where
  "mapboxDown hist rq =
     (case rq of
        MapboxGeocode t q \<Rightarrow> Inl ''fetch failed''
      | _ \<Rightarrow> Inr (okResponse (Arr [Obj [(''lat'', Str ''48.85''), (''lon'', Str ''2.35'')]])))"

text \<open>A world in which Mapbox answers with a feature that has no \<open>center\<close>, and Nominatim
  knows the place.\<close>

definition mapboxNoCenter :: network where
  "mapboxNoCenter hist rq =
     (case rq of
        MapboxGeocode t q \<Rightarrow>
          Inr (okResponse (Obj [(''features'', Arr [Obj [(''place_name'', Str ''Paris'')]])]))
      | _ \<Rightarrow> Inr (okResponse (Arr [Obj [(''lat'', Str ''48.85''), (''lon'', Str ''2.35'')]])))"

text \<open>A raw record whose title is an object with a property \<open>toString\<close> of its own, which
  cannot be converted to a string.\<close>

definition noTitleString :: jsval where
  "noTitleString = Obj [(''title'', Obj [(''toString'', Number (Num 1))])]"

text \<open>A world in which the three Adzuna pages hold no usable record: the first page holds
  a \<open>null\<close> and the record above, the second has no \<open>results\<close>, the third is empty.\<close>

definition nullPages :: network where
  "nullPages hist rq =
     (case rq of
        AdzunaPage i k p n \<Rightarrow>
          Inr (okResponse
            (if p = 1 then Obj [(''results'', Arr [Null, noTitleString])]
             else if p = 2 then Obj []
             else Obj [(''results'', Arr [])]))
      | _ \<Rightarrow> Inl ''fetch failed'')"

section \<open>Properties of the rate limiter\<close>

lemma admissions_within:
  "st ip = Some \<lparr>ts = t0, count = c\<rparr> \<Longrightarrow> list_all (\<lambda>t. t - t0 \<le> rateLimitWindowMs) nows
   \<Longrightarrow> c + int (length nows) \<le> rateLimitMax
   \<Longrightarrow> list_all ok (fst (admissions ip nows st)) \<and>
       snd (admissions ip nows st) = st(ip \<mapsto> \<lparr>ts = t0, count = c + int (length nows)\<rparr>)"
proof (induction nows arbitrary: st c)
  case Nil
  then show ?case by (simp add: fun_upd_idem)
next
  case (Cons t nows)
  have step: "checkRateLimit t ip st =
      (\<lparr>ok = True, retryAfterMs = None\<rparr>, st(ip \<mapsto> \<lparr>ts = t0, count = c + 1\<rparr>))"
    using Cons.prems by (simp add: checkRateLimit_def)
  have "list_all ok (fst (admissions ip nows (st(ip \<mapsto> \<lparr>ts = t0, count = c + 1\<rparr>)))) \<and>
       snd (admissions ip nows (st(ip \<mapsto> \<lparr>ts = t0, count = c + 1\<rparr>)))
         = (st(ip \<mapsto> \<lparr>ts = t0, count = c + 1\<rparr>))
             (ip \<mapsto> \<lparr>ts = t0, count = (c + 1) + int (length nows)\<rparr>)"
    using Cons.prems by (intro Cons.IH) simp_all
  then show ?case using step by (simp add: split_beta algebra_simps)
qed

text \<open>
  Claim C4. With window 60000 ms and max 60, for a key the store does not know yet: the
  first call (at clock \<open>t0\<close>) is allowed and stores a window starting at \<open>t0\<close> with count 1;
  each of the next 59 calls made while the window is not over (the code's test
  \<open>now - ts > 60000\<close> is false) is allowed, and after \<open>i\<close> of them the count is \<open>1 + i\<close> with
  the window start unchanged; the 61st call, made before 60000 ms have passed since \<open>t0\<close>,
  is rejected with \<open>retryAfterMs = 60000 - (t61 - t0) > 0\<close>; and a call made more than
  60000 ms after \<open>t0\<close> is allowed and starts a fresh window with count 1.
\<close>

theorem rate_limit_window:
  assumes fresh: "ipStore ip = None"
    and len: "length nows = 59"
    and within: "list_all (\<lambda>t. t - t0 \<le> rateLimitWindowMs) nows"
    and t61: "t61 - t0 < rateLimitWindowMs"
    and late: "t' - t0 > rateLimitWindowMs"
    and s0: "s0 = snd (checkRateLimit t0 ip ipStore)"
    and s1: "s1 = snd (admissions ip nows s0)"
    and s2: "s2 = snd (checkRateLimit t61 ip s1)"
  shows "rateLimitWindowMs = 60000 \<and> rateLimitMax = 60
    \<and> fst (checkRateLimit t0 ip ipStore) = \<lparr>ok = True, retryAfterMs = None\<rparr>
    \<and> s0 ip = Some \<lparr>ts = t0, count = 1\<rparr>
    \<and> list_all ok (fst (admissions ip nows s0))
    \<and> (\<forall>i\<le>59. snd (admissions ip (take i nows) s0) ip = Some \<lparr>ts = t0, count = 1 + int i\<rparr>)
    \<and> fst (checkRateLimit t61 ip s1)
        = \<lparr>ok = False, retryAfterMs = Some (rateLimitWindowMs - (t61 - t0))\<rparr>
    \<and> rateLimitWindowMs - (t61 - t0) > 0
    \<and> fst (checkRateLimit t' ip s2) = \<lparr>ok = True, retryAfterMs = None\<rparr>
    \<and> snd (checkRateLimit t' ip s2) ip = Some \<lparr>ts = t', count = 1\<rparr>"
proof (intro conjI)
  show "rateLimitWindowMs = 60000" by (simp add: rateLimitWindowMs_def)
  show "rateLimitMax = 60" by (simp add: rateLimitMax_def)
  show "fst (checkRateLimit t0 ip ipStore) = \<lparr>ok = True, retryAfterMs = None\<rparr>"
    using fresh by (simp add: checkRateLimit_def)
  have s0_eq: "s0 = ipStore(ip \<mapsto> \<lparr>ts = t0, count = 1\<rparr>)"
    using fresh s0 by (simp add: checkRateLimit_def)
  then show s0_ip: "s0 ip = Some \<lparr>ts = t0, count = 1\<rparr>" by simp
  have all: "list_all ok (fst (admissions ip nows s0)) \<and>
      snd (admissions ip nows s0) = s0(ip \<mapsto> \<lparr>ts = t0, count = 1 + int (length nows)\<rparr>)"
    using s0_ip within len by (intro admissions_within) (simp_all add: rateLimitMax_def)
  then show "list_all ok (fst (admissions ip nows s0))" by simp
  show "\<forall>i\<le>59. snd (admissions ip (take i nows) s0) ip = Some \<lparr>ts = t0, count = 1 + int i\<rparr>"
  proof (intro allI impI)
    fix i :: nat assume i: "i \<le> 59"
    have w: "list_all (\<lambda>t. t - t0 \<le> rateLimitWindowMs) (take i nows)"
      using within by (auto simp: list_all_iff dest: in_set_takeD)
    have "snd (admissions ip (take i nows) s0)
        = s0(ip \<mapsto> \<lparr>ts = t0, count = 1 + int (length (take i nows))\<rparr>)"
      using s0_ip w i len
      by (intro conjunct2 [OF admissions_within]) (simp_all add: rateLimitMax_def)
    then show "snd (admissions ip (take i nows) s0) ip = Some \<lparr>ts = t0, count = 1 + int i\<rparr>"
      using i len by simp
  qed
  have s1_ip: "s1 ip = Some \<lparr>ts = t0, count = 60\<rparr>"
    using all s1 len by simp
  show "fst (checkRateLimit t61 ip s1)
      = \<lparr>ok = False, retryAfterMs = Some (rateLimitWindowMs - (t61 - t0))\<rparr>"
    using s1_ip t61 by (simp add: checkRateLimit_def rateLimitMax_def)
  show "rateLimitWindowMs - (t61 - t0) > 0" using t61 by simp
  have s2_eq: "s2 = s1"
    using s2 s1_ip t61 by (simp add: checkRateLimit_def rateLimitMax_def)
  show "fst (checkRateLimit t' ip s2) = \<lparr>ok = True, retryAfterMs = None\<rparr>"
    using s2_eq s1_ip late by (simp add: checkRateLimit_def)
  show "snd (checkRateLimit t' ip s2) ip = Some \<lparr>ts = t', count = 1\<rparr>"
    using s2_eq s1_ip late by (simp add: checkRateLimit_def)
qed

theorem rate_limit_window_witness:
  "fst (checkRateLimit 59999 ''10.0.0.1''
      (snd (admissions ''10.0.0.1'' (replicate 59 2000)
          (snd (checkRateLimit 1000 ''10.0.0.1'' Map.empty)))))
     = \<lparr>ok = False, retryAfterMs = Some 1001\<rparr>
   \<and> fst (checkRateLimit 61001 ''10.0.0.1''
      (snd (checkRateLimit 59999 ''10.0.0.1''
        (snd (admissions ''10.0.0.1'' (replicate 59 2000)
          (snd (checkRateLimit 1000 ''10.0.0.1'' Map.empty)))))))
     = \<lparr>ok = True, retryAfterMs = None\<rparr>"
proof -
  have w: "list_all (\<lambda>t. t - 1000 \<le> rateLimitWindowMs) (replicate 59 (2000::int))"
    by (simp add: list_all_iff rateLimitWindowMs_def)
  have a: "(59999::int) - 1000 < rateLimitWindowMs" and b: "(61001::int) - 1000 > rateLimitWindowMs"
    by (simp_all add: rateLimitWindowMs_def)
  show ?thesis
    using rate_limit_window [where ipStore = Map.empty and ip = "''10.0.0.1''"
        and nows = "replicate 59 2000" and ?t0.0 = 1000 and ?t61.0 = 59999 and t' = 61001,
        OF _ _ w a b refl refl refl]
    by (simp add: rateLimitWindowMs_def)
qed

text \<open>At exactly 60000 ms after the window start the window is not yet reset: a key that
  has used its 60 requests is still rejected there, with \<open>retryAfterMs = 0\<close>.\<close>

lemma window_end_still_rejected:
  "ipStore ip = Some \<lparr>ts = t0, count = 60\<rparr> \<Longrightarrow>
     checkRateLimit (t0 + 60000) ip ipStore = (\<lparr>ok = False, retryAfterMs = Some 0\<rparr>, ipStore)"
  by (simp add: checkRateLimit_def rateLimitMax_def rateLimitWindowMs_def)

text \<open>
  Claim C9. A rejected admission leaves the whole store unchanged: neither the count nor
  the window start of the key (nor any other key's entry) is modified.
\<close>

theorem rejected_leaves_state:
  "\<not> ok (fst (checkRateLimit now ip ipStore)) \<Longrightarrow> snd (checkRateLimit now ip ipStore) = ipStore"
  by (auto simp: checkRateLimit_def split: option.splits if_splits)

theorem rejected_leaves_state_witness:
  "\<not> ok (fst (checkRateLimit 7 ''a'' [''a'' \<mapsto> \<lparr>ts = 0, count = 60\<rparr>]))
   \<and> snd (checkRateLimit 7 ''a'' [''a'' \<mapsto> \<lparr>ts = 0, count = 60\<rparr>]) = [''a'' \<mapsto> \<lparr>ts = 0, count = 60\<rparr>]"
proof -
  have r: "\<not> ok (fst (checkRateLimit 7 ''a'' [''a'' \<mapsto> \<lparr>ts = 0, count = 60\<rparr>]))"
    by (simp add: checkRateLimit_def rateLimitMax_def rateLimitWindowMs_def)
  show ?thesis using r rejected_leaves_state [OF r] by simp
qed

section \<open>Properties of the normalizers\<close>

lemma coordinate_cases:
  "hasNumeric k r \<Longrightarrow> isNumber (coordinate k missing r)"
  "\<not> hasNumeric k r \<Longrightarrow> coordinate k missing r = missing"
  by (auto simp: coordinate_def hasNumeric_def optProp_def split: if_splits)

lemma mapAdzunaToJob_coordinates:
  "mapAdzunaToJob B r = Some j \<Longrightarrow>
     j_lat j = coordinate ''latitude'' Undefined r \<and> j_lon j = coordinate ''longitude'' Undefined r"
  by (auto simp: mapAdzunaToJob_def bind_eq_Some_conv split: if_splits)

lemma mapAdzunaToUpsert_coordinates:
  "mapAdzunaToUpsert B r = Some u \<Longrightarrow>
     u_lat u = coordinate ''latitude'' Null r \<and> u_lon u = coordinate ''longitude'' Null r"
  by (auto simp: mapAdzunaToUpsert_def Let_def bind_eq_Some_conv split: if_splits)

text \<open>
  Claim C3, as amended. For every raw record that a normalizer accepts, each of \<open>lat\<close> and
  \<open>lon\<close> is set (a number) exactly when the raw record carries a number for that
  coordinate, at the top level or in its \<open>location\<close> object, and is unset otherwise
  (\<open>undefined\<close> in \<open>mapAdzunaToJob\<close>, \<open>null\<close> in \<open>mapAdzunaToUpsert\<close>), whatever the other
  coordinate is. So both are unset when the record carries neither and both are set when
  it carries both.
\<close>

theorem coordinates_independent:
  "(mapAdzunaToJob B r = Some j \<longrightarrow>
      (if hasNumeric ''latitude'' r then isNumber (j_lat j) else j_lat j = Undefined)
    \<and> (if hasNumeric ''longitude'' r then isNumber (j_lon j) else j_lon j = Undefined))
   \<and> (mapAdzunaToUpsert B r = Some u \<longrightarrow>
      (if hasNumeric ''latitude'' r then isNumber (u_lat u) else u_lat u = Null)
    \<and> (if hasNumeric ''longitude'' r then isNumber (u_lon u) else u_lon u = Null))"
  using mapAdzunaToJob_coordinates [of B r j] mapAdzunaToUpsert_coordinates [of B r u]
  by (simp add: coordinate_cases)

theorem coordinates_independent_witness:
  "(\<exists>j. mapAdzunaToJob referenceBuiltins
            (Obj [(''latitude'', Number (Num 48.8)),
                  (''location'', Obj [(''longitude'', Number (Num 2.3))])]) = Some j
        \<and> isNumber (j_lat j) \<and> isNumber (j_lon j))
   \<and> (\<exists>u. mapAdzunaToUpsert referenceBuiltins
            (Obj [(''latitude'', Number (Num 48.8)),
                  (''location'', Obj [(''longitude'', Number (Num 2.3))])]) = Some u
        \<and> isNumber (u_lat u) \<and> isNumber (u_lon u))"
proof -
  let ?r = "Obj [(''latitude'', Number (Num 48.8)),
                 (''location'', Obj [(''longitude'', Number (Num 2.3))])]"
  have lat: "hasNumeric ''latitude'' ?r" and lon: "hasNumeric ''longitude'' ?r"
    by (simp_all add: hasNumeric_def optProp_def)
  obtain j where j: "mapAdzunaToJob referenceBuiltins ?r = Some j"
    by (simp add: mapAdzunaToJob_def job_ident_def job_city_def job_description_def optProp_def
        js_or_def salary_def remoteFlag_def)
  obtain u where u: "mapAdzunaToUpsert referenceBuiltins ?r = Some u"
    by (simp add: mapAdzunaToUpsert_def Let_def salary_def remoteFlag_def upsert_description_def
        upsert_source_id_def hashInput_def upsert_city_def js_coalesce_def optProp_def)
  show ?thesis
    using coordinates_independent [of referenceBuiltins ?r j u] j u lat lon by simp
qed

text \<open>A raw record with a numeric latitude and no longitude: both normalizers return a
  record with \<open>lat\<close> set and \<open>lon\<close> unset.\<close>

theorem latitude_without_longitude:
  "map_option j_lat (mapAdzunaToJob referenceBuiltins (Obj [(''latitude'', Number (Num 48.8))]))
     = Some (Number (Num 48.8))
   \<and> map_option j_lon (mapAdzunaToJob referenceBuiltins (Obj [(''latitude'', Number (Num 48.8))]))
     = Some Undefined
   \<and> map_option u_lat (mapAdzunaToUpsert referenceBuiltins (Obj [(''latitude'', Number (Num 48.8))]))
     = Some (Number (Num 48.8))
   \<and> map_option u_lon (mapAdzunaToUpsert referenceBuiltins (Obj [(''latitude'', Number (Num 48.8))]))
     = Some Null"
  by (simp add: mapAdzunaToJob_def mapAdzunaToUpsert_def Let_def job_ident_def job_city_def
      job_description_def optProp_def js_or_def coordinate_def salary_def remoteFlag_def
      upsert_description_def upsert_source_id_def hashInput_def upsert_city_def js_coalesce_def)

lemma sha_Acme:
  "take 40 (sha256_hex ''dev|Acme|Paris|2024-01-15T10:30:00Z'')
     = ''a90ed3a216a27fe84c5c79a2c7e9be6daa549a89''"
  by code_simp

lemma sha_ACME:
  "take 40 (sha256_hex ''dev|ACME|Paris|2024-01-15T10:30:00Z'')
     = ''e80be166649b0f6326b293eb4bd555fece3cf748''"
  by code_simp

lemma lower_dev: "toLowerCase ''Dev'' = ''dev''" "toLowerCase ''DEV'' = ''dev''"
  by (simp_all add: toLowerCase_def lowerChar_def char_of_def bit_Suc_0_iff)

text \<open>
  Claim C2, evaluated on the code. Two raw records that differ only in the casing of the
  company (\<open>Acme\<close>, \<open>ACME\<close>) get different values of \<open>uniq_hash\<close>, because the hashed string
  lowercases the title only; a record that differs from the first only in the casing of
  the title (\<open>DEV\<close>) gets the hash of the first.
\<close>

theorem uniq_hash_company_case:
  "map_option u_uniq_hash (mapAdzunaToUpsert B
      (Obj [(''title'', Str ''Dev''), (''company'', Str ''Acme''),
            (''location'', Obj [(''display_name'', Str ''Paris'')]),
            (''created'', Str ''2024-01-15T10:30:00Z'')]))
     = Some ''a90ed3a216a27fe84c5c79a2c7e9be6daa549a89''
   \<and> map_option u_uniq_hash (mapAdzunaToUpsert B
      (Obj [(''title'', Str ''Dev''), (''company'', Str ''ACME''),
            (''location'', Obj [(''display_name'', Str ''Paris'')]),
            (''created'', Str ''2024-01-15T10:30:00Z'')]))
     = Some ''e80be166649b0f6326b293eb4bd555fece3cf748''
   \<and> map_option u_uniq_hash (mapAdzunaToUpsert B
      (Obj [(''title'', Str ''DEV''), (''company'', Str ''Acme''),
            (''location'', Obj [(''display_name'', Str ''Paris'')]),
            (''created'', Str ''2024-01-15T10:30:00Z'')]))
     = Some ''a90ed3a216a27fe84c5c79a2c7e9be6daa549a89''"
  by (simp add: mapAdzunaToUpsert_def Let_def upsert_city_def js_coalesce_def optProp_def
      salary_def remoteFlag_def upsert_description_def upsert_source_id_def
      hashInput_def lower_dev sha_Acme sha_ACME)

section \<open>Properties of the import route\<close>

text \<open>
  Claim C10. When \<open>CRON_SECRET\<close> is unset or empty, every request to the import route is
  answered with status 401, whatever the \<open>x-cron-secret\<close> header is (absent, empty or
  not), and no request is issued.
\<close>

theorem import_fails_closed:
  "env_CRON_SECRET E = None \<or> env_CRON_SECRET E = Some [] \<Longrightarrow>
     resp_status (fst (POST B E net header sent)) = 401 \<and> snd (POST B E net header sent) = sent"
  by (auto simp: POST_def CRON_SECRET_def orEmpty_def jsonResponse_def)

theorem import_fails_closed_witness:
  "resp_status (fst (POST referenceBuiltins (exampleEnv\<lparr>env_CRON_SECRET := Some []\<rparr>)
      nullPages (Some []) [])) = 401"
proof -
  have "env_CRON_SECRET (exampleEnv\<lparr>env_CRON_SECRET := Some []\<rparr>) = None
      \<or> env_CRON_SECRET (exampleEnv\<lparr>env_CRON_SECRET := Some []\<rparr>) = Some []"
    by simp
  then show ?thesis
    by (rule conjunct1 [OF import_fails_closed])
qed

lemma fetchAdzunaPage_sent:
  "fetchAdzunaPage E net sent p n = (r, sent') \<Longrightarrow>
     sent' = sent @ [AdzunaPage (ADZUNA_APP_ID E) (ADZUNA_APP_KEY E) p n]"
  by (auto simp: fetchAdzunaPage_def Let_def split: sum.splits if_splits)

lemma fetchPages_no_upsert:
  "fetchPages E net ps n acc sent = (r, sent') \<Longrightarrow> filter isUpsert sent' = filter isUpsert sent"
proof (induction ps arbitrary: acc sent)
  case Nil
  then show ?case by simp
next
  case (Cons p ps)
  obtain r1 s1 where f: "fetchAdzunaPage E net sent p n = (r1, s1)"
    by (cases "fetchAdzunaPage E net sent p n")
  have s1: "filter isUpsert s1 = filter isUpsert sent"
    using fetchAdzunaPage_sent [OF f] by simp
  show ?case
  proof (cases r1)
    case (Inl e)
    then show ?thesis using Cons.prems f s1 by simp
  next
    case (Inr json)
    then show ?thesis using Cons.prems f s1 Cons.IH
      by (auto split: if_splits)
  qed
qed

lemma collectUpserts_none:
  "list_all (\<lambda>r. mapAdzunaToUpsert B r = None) rs \<Longrightarrow> collectUpserts B rs = []"
  by (induction rs) auto

text \<open>The normalizer drops a record that is \<open>null\<close> or \<open>undefined\<close>, and a record on which
  one of its conversions throws: here the conversion of the title for the hash.\<close>

lemma mapAdzunaToUpsert_drops:
  "mapAdzunaToUpsert B Null = None"
  "mapAdzunaToUpsert B noTitleString = None"
  by (simp_all add: mapAdzunaToUpsert_def noTitleString_def Let_def salary_def remoteFlag_def
      upsert_description_def upsert_source_id_def hashInput_def js_coalesce_def)

text \<open>
  Claim C8. In a run that passes the secret and configuration checks and fetches its pages
  without an error, if every fetched record maps to \<open>null\<close> (a record that is \<open>null\<close>, a
  record on which a conversion throws; in particular if no record was returned), the
  route answers 200 with \<open>{imported: 0}\<close>, and the requests issued are those of the page
  fetches: no upsert request is sent.
\<close>

theorem no_survivors_no_upsert:
  assumes auth: "CRON_SECRET E \<noteq> []" "orEmpty header = CRON_SECRET E"
    and cfg: "ADZUNA_APP_ID E \<noteq> []" "ADZUNA_APP_KEY E \<noteq> []"
             "SUPABASE_URL E \<noteq> []" "SUPABASE_SERVICE_ROLE E \<noteq> []"
    and pages: "fetchPages E net [1, 2, 3] 50 [] sent = (Inr allResults, sent1)"
    and none: "list_all (\<lambda>r. mapAdzunaToUpsert B r = None) allResults"
  shows "POST B E net header sent
           = (\<lparr>resp_status = 200, resp_body = Obj [(''imported'', Number (Num 0))]\<rparr>, sent1)
         \<and> filter isUpsert sent1 = filter isUpsert sent"
proof
  have "collectUpserts B allResults = []"
    using none by (rule collectUpserts_none)
  then show "POST B E net header sent
           = (\<lparr>resp_status = 200, resp_body = Obj [(''imported'', Number (Num 0))]\<rparr>, sent1)"
    using auth cfg pages by (simp add: POST_def imported_def jsonResponse_def)
  show "filter isUpsert sent1 = filter isUpsert sent"
    using pages by (rule fetchPages_no_upsert)
qed

theorem no_survivors_no_upsert_witness:
  "POST referenceBuiltins exampleEnv nullPages (Some ''s3cret'') []
     = (\<lparr>resp_status = 200, resp_body = Obj [(''imported'', Number (Num 0))]\<rparr>,
        [AdzunaPage ''id'' ''key'' 1 50, AdzunaPage ''id'' ''key'' 2 50,
         AdzunaPage ''id'' ''key'' 3 50])"
proof -
  have pages: "fetchPages exampleEnv nullPages [1, 2, 3] 50 [] []
      = (Inr [Null, noTitleString], [AdzunaPage ''id'' ''key'' 1 50, AdzunaPage ''id'' ''key'' 2 50,
           AdzunaPage ''id'' ''key'' 3 50])"
    by (simp add: fetchAdzunaPage_def nullPages_def okResponse_def exampleEnv_def
        ADZUNA_APP_ID_def ADZUNA_APP_KEY_def orEmpty_def)
  have none: "list_all (\<lambda>r. mapAdzunaToUpsert referenceBuiltins r = None) [Null, noTitleString]"
    by (simp add: mapAdzunaToUpsert_drops)
  show ?thesis
    by (rule conjunct1 [OF no_survivors_no_upsert [OF _ _ _ _ _ _ pages none]])
       (simp_all add: exampleEnv_def CRON_SECRET_def ADZUNA_APP_ID_def ADZUNA_APP_KEY_def
          SUPABASE_URL_def SUPABASE_SERVICE_ROLE_def orEmpty_def)
qed

section \<open>Properties of the geocode resolver\<close>

lemma geocodeMapbox_value:
  "geocodeMapbox E net sent q = (Inr v, sent') \<Longrightarrow> js_or v Null = v"
  by (auto simp: geocodeMapbox_def Let_def js_or_def split: if_splits sum.splits)

lemma geocodeNominatim_value:
  "geocodeNominatimThrottled B net sent q = (Inr v, sent') \<Longrightarrow> js_or v Null = v"
  by (auto simp: geocodeNominatimThrottled_def Let_def js_or_def
      split: if_splits sum.splits option.splits)

lemma resolveProviders_value:
  "resolveProviders B E net sent q = (Inr v, sent') \<Longrightarrow> js_or v Null = v"
  by (auto simp: resolveProviders_def split: if_splits sum.splits prod.splits
      dest: geocodeMapbox_value geocodeNominatim_value)

lemma geocodeNominatim_sent:
  "snd (geocodeNominatimThrottled B net sent q) = sent @ [NominatimSearch q]"
  by (simp add: geocodeNominatimThrottled_def Let_def split: sum.splits option.splits)

lemma js_or_idem: "js_or (js_or v Null) Null = js_or v Null"
  by (simp add: js_or_def)

lemma key_acme_paris: "cacheKey (Some ''Acme'') (Some ''Paris'') = ''acme|paris''"
  by (simp add: cacheKey_def orEmpty_def trim_def isSpaceChar_def toLowerCase_def
      lowerChar_def char_of_def bit_Suc_0_iff)

lemma example_mapbox: "USE_MAPBOX exampleEnv" "MAPBOX_TOKEN exampleEnv = ''tok''"
  by (simp_all add: USE_MAPBOX_def MAPBOX_TOKEN_def exampleEnv_def orEmpty_def)

text \<open>
  Claim C5. After one call of the resolver has completed, a second call with the same
  pair returns the same result and leaves the cache and the request log as they are: it
  issues no request, however the network would answer. When the pair is not empty, the
  first call has left an entry for the key in the cache and the result is that entry
  (\<open>null\<close> for a cached negative result).
\<close>

theorem geocode_second_call_cached:
  assumes first: "fetchGeocodeIfNeeded B E net company city (cache, sent) = (res, cache', sent')"
  shows "fetchGeocodeIfNeeded B E net' company city (cache', sent') = (res, cache', sent')
     \<and> (\<not> (orEmpty company = [] \<and> orEmpty city = []) \<longrightarrow>
          (\<exists>v. cache' (cacheKey company city) = Some v \<and> res = Inr (js_or v Null)))"
proof (cases "orEmpty company = [] \<and> orEmpty city = []")
  case True
  then show ?thesis using first by (auto simp: fetchGeocodeIfNeeded_def)
next
  case False
  show ?thesis
  proof (cases "cache (cacheKey company city)")
    case (Some v)
    then show ?thesis using first False
      by (auto simp: fetchGeocodeIfNeeded_def Let_def js_or_idem)
  next
    case None
    obtain r s where rp: "resolveProviders B E net sent (geocodeQuery company city) = (r, s)"
      by (cases "resolveProviders B E net sent (geocodeQuery company city)")
    show ?thesis
    proof (cases r)
      case (Inl err)
      then show ?thesis using first False None rp
        by (auto simp: fetchGeocodeIfNeeded_def Let_def js_or_def)
    next
      case (Inr v)
      have "js_or v Null = v" using rp Inr by (auto dest: resolveProviders_value)
      then show ?thesis using first False None rp Inr
        by (auto simp: fetchGeocodeIfNeeded_def Let_def)
    qed
  qed
qed

theorem geocode_second_call_cached_witness:
  "fetchGeocodeIfNeeded referenceBuiltins exampleEnv mapboxDown (Some ''Acme'') (Some ''Paris'')
     ([''acme|paris'' \<mapsto> Null], [MapboxGeocode ''tok'' ''Acme Paris''])
   = (Inr Null, [''acme|paris'' \<mapsto> Null], [MapboxGeocode ''tok'' ''Acme Paris''])"
proof -
  have first: "fetchGeocodeIfNeeded referenceBuiltins exampleEnv offline (Some ''Acme'')
      (Some ''Paris'') (Map.empty, [])
    = (Inr Null, [''acme|paris'' \<mapsto> Null], [MapboxGeocode ''tok'' ''Acme Paris''])"
    by (simp add: fetchGeocodeIfNeeded_def key_acme_paris resolveProviders_def example_mapbox
        geocodeMapbox_def offline_def geocodeQuery_def orEmpty_def)
  show ?thesis
    by (rule conjunct1 [OF geocode_second_call_cached [OF first]])
qed

lemma geocodeMapbox_sent:
  assumes "geocodeMapbox E net sent q = (r, s)"
  shows "(s = sent \<and> r = Inr Null) \<or> s = sent @ [MapboxGeocode (MAPBOX_TOKEN E) q]"
  using assms by (auto simp: geocodeMapbox_def Let_def split: if_splits sum.splits)

text \<open>The three places where the primary provider throws: the request itself, reading
  the JSON body of an answer that is OK, and a first feature without \<open>center\<close>.\<close>

lemma geocodeMapbox_throws:
  "(\<exists>err. fst (geocodeMapbox E net sent q) = Inl err) =
     (USE_MAPBOX E \<and>
       (case net sent (MapboxGeocode (MAPBOX_TOKEN E) q) of
          Inl err \<Rightarrow> True
        | Inr r \<Rightarrow>
            r_ok r \<and>
            (case r_json r of
               Inl err \<Rightarrow> True
             | Inr j \<Rightarrow>
                 \<not> nullish (optProp j ''features'')
                 \<and> truthy (elemAt (optProp j ''features'') 0)
                 \<and> nullish (lookupProp (elemAt (optProp j ''features'') 0) ''center''))))"
  by (auto simp: geocodeMapbox_def Let_def split: if_splits sum.splits)

text \<open>
  Claim C6, as amended. On a cache miss for a pair that is not empty, let the primary
  (Mapbox) provider end in \<open>r1\<close> with the log \<open>s1\<close>. The resolver never propagates an
  exception to its caller: it always returns a value. If the primary provider throws,
  wherever it throws (the request, the reading of the JSON body, a feature without
  \<open>center\<close>), the resolution ends: \<open>null\<close> is cached for the key and returned, and the only
  request issued is the one to Mapbox. If the primary provider returns a result, that
  result is cached and returned after the one request to Mapbox. If it returns no result
  (disabled, an answer that is not OK, no feature), the next request is the one to
  Nominatim. So the secondary provider is requested exactly when the primary provider
  returns no result, and never after an exception of the primary provider.
\<close>

theorem primary_exception_ends_resolution:
  assumes miss: "cache (cacheKey company city) = None"
    and given: "\<not> (orEmpty company = [] \<and> orEmpty city = [])"
    and primary: "geocodeMapbox E net sent (geocodeQuery company city) = (r1, s1)"
    and run: "fetchGeocodeIfNeeded B E net company city (cache, sent) = (res, cache', sent')"
  shows "(\<exists>v. res = Inr v)
    \<and> (\<forall>err. r1 = Inl err \<longrightarrow>
          res = Inr Null \<and> cache' = cache(cacheKey company city \<mapsto> Null)
          \<and> sent' = sent @ [MapboxGeocode (MAPBOX_TOKEN E) (geocodeQuery company city)])
    \<and> (\<forall>v. r1 = Inr v \<and> truthy v \<longrightarrow>
          res = Inr v \<and> cache' = cache(cacheKey company city \<mapsto> v)
          \<and> sent' = sent @ [MapboxGeocode (MAPBOX_TOKEN E) (geocodeQuery company city)])
    \<and> (\<forall>v. r1 = Inr v \<and> \<not> truthy v \<longrightarrow>
          sent' = s1 @ [NominatimSearch (geocodeQuery company city)])
    \<and> (list_ex isNominatim (drop (length sent) sent') = (\<exists>v. r1 = Inr v \<and> \<not> truthy v))"
proof -
  let ?q = "geocodeQuery company city"
  let ?mb = "MapboxGeocode (MAPBOX_TOKEN E) ?q"
  have first: "(if USE_MAPBOX E then geocodeMapbox E net sent ?q else (Inr Null, sent)) = (r1, s1)"
    using primary by (auto simp: geocodeMapbox_def)
  have s1: "(s1 = sent \<and> r1 = Inr Null) \<or> s1 = sent @ [?mb]"
    using primary by (rule geocodeMapbox_sent)
  show ?thesis
  proof (cases r1)
    case (Inl err)
    then have s1': "s1 = sent @ [?mb]" using s1 by auto
    have "resolveProviders B E net sent ?q = (Inl err, s1)"
      using first Inl by (simp add: resolveProviders_def)
    then have "fetchGeocodeIfNeeded B E net company city (cache, sent)
        = (Inr Null, cache(cacheKey company city \<mapsto> Null), s1)"
      using miss given by (auto simp: fetchGeocodeIfNeeded_def Let_def)
    then show ?thesis using run Inl s1' by auto
  next
    case (Inr v)
    show ?thesis
    proof (cases "truthy v")
      case True
      then have s1': "s1 = sent @ [?mb]" using s1 Inr by auto
      have "resolveProviders B E net sent ?q = (Inr v, s1)"
        using first Inr True by (simp add: resolveProviders_def)
      then have "fetchGeocodeIfNeeded B E net company city (cache, sent)
          = (Inr v, cache(cacheKey company city \<mapsto> v), s1)"
        using miss given by (auto simp: fetchGeocodeIfNeeded_def Let_def)
      then show ?thesis using run Inr True s1' by auto
    next
      case False
      obtain r2 where n: "geocodeNominatimThrottled B net s1 ?q = (r2, s1 @ [NominatimSearch ?q])"
        using geocodeNominatim_sent [of B net s1 ?q]
        by (cases "geocodeNominatimThrottled B net s1 ?q") auto
      have "resolveProviders B E net sent ?q = (r2, s1 @ [NominatimSearch ?q])"
        using first Inr False n by (simp add: resolveProviders_def)
      then have sent': "sent' = s1 @ [NominatimSearch ?q]" and res: "\<exists>w. res = Inr w"
        using miss given run by (cases r2; auto simp: fetchGeocodeIfNeeded_def Let_def)+
      have "list_ex isNominatim (drop (length sent) sent')"
        using sent' s1 by (auto simp: list_ex_iff)
      then show ?thesis using Inr False sent' res by auto
    qed
  qed
qed

lemma key_paris: "cacheKey None (Some ''Paris'') = ''|paris''"
  by (simp add: cacheKey_def orEmpty_def trim_def isSpaceChar_def toLowerCase_def
      lowerChar_def char_of_def bit_Suc_0_iff)

theorem primary_exception_ends_resolution_witness:
  "fetchGeocodeIfNeeded referenceBuiltins exampleEnv mapboxNoCenter None (Some ''Paris'')
      (Map.empty, [])
     = (Inr Null, [''|paris'' \<mapsto> Null], [MapboxGeocode ''tok'' ''Paris''])"
proof -
  let ?run = "fetchGeocodeIfNeeded referenceBuiltins exampleEnv mapboxNoCenter None
      (Some ''Paris'') (Map.empty, [])"
  have miss: "Map.empty (cacheKey None (Some ''Paris'')) = (None :: jsval option)"
    by simp
  have given: "\<not> (orEmpty None = [] \<and> orEmpty (Some ''Paris'') = [])"
    by (simp add: orEmpty_def)
  have q: "geocodeQuery None (Some ''Paris'') = ''Paris''"
    by (simp add: geocodeQuery_def orEmpty_def)
  have primary: "geocodeMapbox exampleEnv mapboxNoCenter [] (geocodeQuery None (Some ''Paris''))
      = (Inl ''TypeError: cannot read properties of undefined'', [MapboxGeocode ''tok'' ''Paris''])"
    by (simp add: q geocodeMapbox_def example_mapbox mapboxNoCenter_def okResponse_def optProp_def)
  have run: "?run = (fst ?run, fst (snd ?run), snd (snd ?run))"
    by simp
  have "fst ?run = Inr Null
      \<and> fst (snd ?run) = Map.empty(cacheKey None (Some ''Paris'') \<mapsto> Null)
      \<and> snd (snd ?run) = [] @ [MapboxGeocode (MAPBOX_TOKEN exampleEnv)
            (geocodeQuery None (Some ''Paris''))]"
    by (rule mp [OF spec [OF conjunct1 [OF conjunct2
          [OF primary_exception_ends_resolution [OF miss given primary run]]]] refl])
  then have "?run = (Inr Null, Map.empty(cacheKey None (Some ''Paris'') \<mapsto> Null),
      [] @ [MapboxGeocode (MAPBOX_TOKEN exampleEnv) (geocodeQuery None (Some ''Paris''))])"
    by (metis prod.collapse)
  then show ?thesis
    by (simp add: key_paris q example_mapbox)
qed

text \<open>Mapbox throws and Nominatim would have answered: the resolver returns \<open>null\<close> after
  the single request to Mapbox.\<close>

theorem mapbox_exception_skips_nominatim:
  "fetchGeocodeIfNeeded referenceBuiltins exampleEnv mapboxDown (Some ''Acme'') (Some ''Paris'')
      (Map.empty, [])
     = (Inr Null, [''acme|paris'' \<mapsto> Null], [MapboxGeocode ''tok'' ''Acme Paris''])
   \<and> fst (geocodeNominatimThrottled referenceBuiltins mapboxDown
        [MapboxGeocode ''tok'' ''Acme Paris''] ''Acme Paris'')
     = Inr (Obj [(''lat'', Number (Num 48.85)), (''lon'', Number (Num 2.35))])"
  by (simp add: fetchGeocodeIfNeeded_def key_acme_paris resolveProviders_def example_mapbox
      geocodeMapbox_def geocodeNominatimThrottled_def mapboxDown_def okResponse_def
      geocodeQuery_def orEmpty_def referenceBuiltins_def parseDecimal_def parseUnsigned_def
      parseMantissa_def trim_def isSpaceChar_def isDigit_def isExpChar_def digitsValue_def)

section \<open>Properties of the spatial filter and the sort\<close>

lemma bbox_paris_parts:
  "bboxParts (B\<lparr>stringToNumber := parseDecimal\<rparr>) ''2.0,48.0,2.5,48.5'' = [2, 48, 5 / 2, 97 / 2]"
  by (simp add: bboxParts_def parseDecimal_def parseUnsigned_def parseMantissa_def trim_def
      isSpaceChar_def isDigit_def isExpChar_def digitsValue_def)

text \<open>
  Claim C1, evaluated on the code. With \<open>Number\<close> reading decimal literals, the box
  \<open>"2.0,48.0,2.5,48.5"\<close> passes the swap test of the handler (\<open>|a|, |c| \<le> 90\<close> and
  \<open>|b|, |d| \<le> 180\<close>), so it is read as \<open>minLat,minLon,maxLat,maxLon\<close>: latitudes in
  \<open>[2, 2.5]\<close> and longitudes in \<open>[48, 48.5]\<close>. The filtered array is empty: the job at
  \<open>(lat = 48.2, lon = 2.2)\<close> is excluded, like the job at \<open>(lat = 49.0, lon = 2.2)\<close>.
\<close>

theorem bbox_paris_swapped:
  "bboxBounds 2 48 (5 / 2) (97 / 2)
     = \<lparr>minLon = 48, maxLon = 97 / 2, minLat = 2, maxLat = 5 / 2\<rparr>
   \<and> spatialFilter (B\<lparr>stringToNumber := parseDecimal\<rparr>)
       (noQuery\<lparr>q_bbox := QStr ''2.0,48.0,2.5,48.5''\<rparr>) 0
       [[j\<lparr>j_lat := Number (Num 48.2), j_lon := Number (Num 2.2)\<rparr>,
         j'\<lparr>j_lat := Number (Num 49.0), j_lon := Number (Num 2.2)\<rparr>]]
     = Some (1, [[j\<lparr>j_lat := Number (Num 48.2), j_lon := Number (Num 2.2)\<rparr>,
                  j'\<lparr>j_lat := Number (Num 49.0), j_lon := Number (Num 2.2)\<rparr>], []])"
  by (simp add: spatialFilter_def noQuery_def bbox_paris_parts newArray_def bboxBounds_def
      inBounds_def)

lemma mset_insertSorted:
  "insertSorted cmp x xs = Some ys \<Longrightarrow> mset ys = add_mset x (mset xs)"
  by (induction xs arbitrary: ys) (auto split: option.splits if_splits)

lemma mset_arraySort: "arraySort cmp xs = Some ys \<Longrightarrow> mset ys = mset xs"
  by (induction xs arbitrary: ys) (auto split: option.splits dest: mset_insertSorted)

lemma set_filterOpt: "filterOpt p xs = Some ys \<Longrightarrow> set ys \<subseteq> set xs"
  by (induction xs arbitrary: ys) (auto split: option.splits if_splits)

lemma case_four:
  "(case xs of [a, b, c, d] \<Rightarrow> f a b c d | _ \<Rightarrow> g)
     = (if length xs = 4 then f (xs ! 0) (xs ! 1) (xs ! 2) (xs ! 3) else g)"
  by (auto split: list.splits)

lemma spatialFilter_new:
  "filterApplies B q \<Longrightarrow> spatialFilter B q a h = Some fh \<Longrightarrow>
     \<exists>xs. fh = (length h, h @ [xs]) \<and> set xs \<subseteq> set (h ! a)"
  by (auto simp: spatialFilter_def filterApplies_def case_four newArray_def
      split: if_splits dest: set_filterOpt)

lemma spatialFilter_same:
  "\<not> filterApplies B q \<Longrightarrow> spatialFilter B q a h = Some (a, h)"
  by (auto simp: spatialFilter_def filterApplies_def case_four split: if_splits)

lemma spatialFilter_cases:
  "(\<not> filterApplies B q \<and> spatialFilter B q a h = Some (a, h))
   \<or> (filterApplies B q \<and>
        (spatialFilter B q a h = None
         \<or> (\<exists>xs. spatialFilter B q a h = Some (length h, h @ [xs]) \<and> set xs \<subseteq> set (h ! a))))"
proof (cases "filterApplies B q")
  case False
  then show ?thesis by (simp add: spatialFilter_same)
next
  case True
  show ?thesis
  proof (cases "spatialFilter B q a h")
    case None
    then show ?thesis using True by simp
  next
    case (Some fh)
    then show ?thesis using True spatialFilter_new [OF True Some] by auto
  qed
qed

lemma sortInPlace_cases:
  "sortInPlace cmp f h = None
   \<or> (\<exists>xs. sortInPlace cmp f h = Some (h[f := xs]) \<and> mset xs = mset (h ! f))"
  by (cases "arraySort cmp (h ! f)") (auto simp: sortInPlace_def dest: mset_arraySort)

lemma sortStep_cases:
  "sortStep B q f h = None
   \<or> (\<exists>xs. sortStep B q f h = Some (h[f := xs]) \<and> mset xs = mset (h ! f))"
proof -
  have "Some h = Some (h[f := h ! f])" by simp
  then have same: "\<exists>xs. Some h = Some (h[f := xs]) \<and> mset xs = mset (h ! f)" by blast
  show ?thesis
    using sortInPlace_cases [of "salaryDesc B" f h] sortInPlace_cases [of "salaryAsc B" f h]
      sortInPlace_cases [of "dateDesc B" f h] same
    by (auto simp: sortStep_def)
qed

lemma filterAndSort_cases:
  assumes "filterAndSort B q a h = (r, h')"
  shows "(\<not> filterApplies B q \<and> r = None \<and> h' = h)
    \<or> (\<not> filterApplies B q \<and> r = Some a \<and> sortStep B q a h = Some h'
          \<and> (\<exists>xs. h' = h[a := xs] \<and> mset xs = mset (h ! a)))
    \<or> (filterApplies B q \<and> r = None \<and> h' = h)
    \<or> (filterApplies B q \<and> r = None \<and> (\<exists>xs. h' = h @ [xs]))
    \<or> (filterApplies B q \<and> r = Some (length h)
          \<and> (\<exists>xs ys. h' = (h @ [xs])[length h := ys] \<and> set ys \<subseteq> set (h ! a)))"
proof -
  from spatialFilter_cases [of B q a h] consider
      (same) "\<not> filterApplies B q" "spatialFilter B q a h = Some (a, h)"
    | (threw) "filterApplies B q" "spatialFilter B q a h = None"
    | (new) xs where "filterApplies B q" "spatialFilter B q a h = Some (length h, h @ [xs])"
        "set xs \<subseteq> set (h ! a)"
    by auto
  then show ?thesis
  proof cases
    case same
    from sortStep_cases [of B q a h] show ?thesis
    proof
      assume "sortStep B q a h = None"
      then show ?thesis using same assms by (simp add: filterAndSort_def)
    next
      assume "\<exists>xs. sortStep B q a h = Some (h[a := xs]) \<and> mset xs = mset (h ! a)"
      then obtain xs where "sortStep B q a h = Some (h[a := xs])" "mset xs = mset (h ! a)"
        by blast
      then show ?thesis using same assms by (auto simp: filterAndSort_def)
    qed
  next
    case threw
    then show ?thesis using assms by (simp add: filterAndSort_def)
  next
    case new
    from sortStep_cases [of B q "length h" "h @ [xs]"] show ?thesis
    proof
      assume "sortStep B q (length h) (h @ [xs]) = None"
      then show ?thesis using new(1,2) assms by (auto simp: filterAndSort_def)
    next
      assume "\<exists>ys. sortStep B q (length h) (h @ [xs]) = Some ((h @ [xs])[length h := ys])
          \<and> mset ys = mset ((h @ [xs]) ! length h)"
      then obtain ys where st: "sortStep B q (length h) (h @ [xs]) = Some ((h @ [xs])[length h := ys])"
        and ys: "mset ys = mset xs" by auto
      have "set ys = set xs" using ys by (rule mset_eq_setD)
      then have "set ys \<subseteq> set (h ! a)" using new(3) by simp
      then show ?thesis using new(1,2) st assms by (auto simp: filterAndSort_def)
    qed
  qed
qed

text \<open>
  Claim C7, as amended. Filtering and sorting never modify a job, and never touch another
  array than the input and the result. When a spatial filter applies (bbox is a non-empty
  string with exactly four numbers or, when bbox is not a non-empty string, center and
  radius are all given), the result is a new array and the input array is left as it was. When no spatial filter applies, the result is the
  input array itself, and sorting (salary_desc, salary_asc, date_desc) reorders it in
  place: afterwards the input array holds the same jobs, each as many times as before,
  possibly in another order. When a conversion throws in one of the two steps, the input
  array is as it was.
\<close>

theorem filter_sort_frame:
  assumes a: "a < length h"
    and run: "filterAndSort B q a h = (r, h')"
  shows "mset (h' ! a) = mset (h ! a)
     \<and> (\<forall>i < length h. i \<noteq> a \<longrightarrow> h' ! i = h ! i)
     \<and> (r = None \<longrightarrow> h' ! a = h ! a)
     \<and> (\<forall>f. r = Some f \<longrightarrow>
           (filterApplies B q \<longrightarrow> f = length h \<and> h' ! a = h ! a)
         \<and> (\<not> filterApplies B q \<longrightarrow> f = a \<and> sortStep B q a h = Some h')
         \<and> set (h' ! f) \<subseteq> set (h ! a))"
proof -
  from filterAndSort_cases [OF run] show ?thesis
  proof (elim disjE conjE exE)
    assume "\<not> filterApplies B q" "r = None" "h' = h"
    then show ?thesis by simp
  next
    fix xs
    assume c: "\<not> filterApplies B q" "r = Some a" "sortStep B q a h = Some h'"
      "h' = h[a := xs]" "mset xs = mset (h ! a)"
    have "set xs = set (h ! a)" using c(5) by (rule mset_eq_setD)
    then show ?thesis using c a by simp
  next
    assume "filterApplies B q" "r = None" "h' = h"
    then show ?thesis by simp
  next
    fix xs
    assume "filterApplies B q" "r = None" "h' = h @ [xs]"
    then show ?thesis using a by (simp add: nth_append)
  next
    fix xs ys
    assume c: "filterApplies B q" "r = Some (length h)" "h' = (h @ [xs])[length h := ys]"
      "set ys \<subseteq> set (h ! a)"
    have "h' ! length h = ys" using c(3) by simp
    moreover have "\<And>i. i < length h \<Longrightarrow> h' ! i = h ! i"
      using c(3) by (simp add: nth_append)
    ultimately show ?thesis using c(1,2,4) a by simp
  qed
qed

theorem filter_sort_frame_witness:
  "fst (filterAndSort referenceBuiltins
      (noQuery\<lparr>q_bbox := QStr ''2.0,48.0,2.5,48.5'', q_sort := QStr ''salary_desc''\<rparr>) 0
      [[exampleJob ''a'' (Number (Num 1)) (Number (Num 2.2)) (Number (Num 48.2)),
        exampleJob ''b'' (Number (Num 2)) (Number (Num 2.4)) (Number (Num 48.4))]]) = Some 1
   \<and> snd (filterAndSort referenceBuiltins
      (noQuery\<lparr>q_bbox := QStr ''2.0,48.0,2.5,48.5'', q_sort := QStr ''salary_desc''\<rparr>) 0
      [[exampleJob ''a'' (Number (Num 1)) (Number (Num 2.2)) (Number (Num 48.2)),
        exampleJob ''b'' (Number (Num 2)) (Number (Num 2.4)) (Number (Num 48.4))]]) ! 0
     = [exampleJob ''a'' (Number (Num 1)) (Number (Num 2.2)) (Number (Num 48.2)),
        exampleJob ''b'' (Number (Num 2)) (Number (Num 2.4)) (Number (Num 48.4))]"
proof -
  let ?q = "noQuery\<lparr>q_bbox := QStr ''2.0,48.0,2.5,48.5'', q_sort := QStr ''salary_desc''\<rparr>"
  let ?h = "[[exampleJob ''a'' (Number (Num 1)) (Number (Num 2.2)) (Number (Num 48.2)),
              exampleJob ''b'' (Number (Num 2)) (Number (Num 2.4)) (Number (Num 48.4))]]"
  let ?run = "filterAndSort referenceBuiltins ?q 0 ?h"
  have a: "0 < length ?h" by simp
  have run: "?run = (fst ?run, snd ?run)"
    by simp
  have parts: "bboxParts referenceBuiltins ''2.0,48.0,2.5,48.5'' = [2, 48, 5 / 2, 97 / 2]"
    using bbox_paris_parts [of referenceBuiltins] by (simp add: referenceBuiltins_def)
  then have app: "filterApplies referenceBuiltins ?q"
    by (simp add: filterApplies_def noQuery_def)
  have fin: "fst ?run = Some 1"
    by (simp add: filterAndSort_def spatialFilter_def noQuery_def parts newArray_def
        bboxBounds_def inBounds_def exampleJob_def sortStep_def sortInPlace_def salaryDesc_def
        js_coalesce_def)
  have "1 = length ?h \<and> snd ?run ! 0 = ?h ! 0"
    by (rule mp [OF conjunct1 [OF mp [OF spec [OF conjunct2 [OF conjunct2 [OF conjunct2
          [OF filter_sort_frame [OF a run]]]]] fin]] app])
  then show ?thesis using fin by simp
qed

text \<open>Without a spatial filter, sorting by descending salary reorders the input array.\<close>

theorem sort_reorders_input_array:
  "filterAndSort referenceBuiltins (noQuery\<lparr>q_sort := QStr ''salary_desc''\<rparr>) 0
     [[exampleJob ''a'' (Number (Num 1)) (Number (Num 48.2)) (Number (Num 2.2)),
       exampleJob ''b'' (Number (Num 2)) (Number (Num 48.4)) (Number (Num 2.4))]]
   = (Some 0, [[exampleJob ''b'' (Number (Num 2)) (Number (Num 48.4)) (Number (Num 2.4)),
                exampleJob ''a'' (Number (Num 1)) (Number (Num 48.2)) (Number (Num 2.2))]])"
  by (simp add: filterAndSort_def spatialFilter_def noQuery_def sortStep_def sortInPlace_def
      salaryDesc_def exampleJob_def js_coalesce_def)

end
